theory Spec2Isabelle
  imports Complex_Main "HOL-Library.Word" "HOL-Library.Sublist"
begin

section \<open>JavaScript strings\<close>

text \<open>
  A JavaScript string is a sequence of UTF-16 code units; \<open>length\<close>, \<open>slice\<close>,
  \<open>includes\<close> and the regular expressions of \<^verbatim>\<open>openai-proxy.cjs\<close> (none has the
  \<^verbatim>\<open>u\<close> flag) all work on code units.
\<close>

type_synonym jschar = "16 word"
type_synonym jsstring = "jschar list"

definition js :: "string \<Rightarrow> jsstring" where
  "js s = map of_char s"

definition isLineTerminator :: "jschar \<Rightarrow> bool" where
  "isLineTerminator c \<longleftrightarrow> c = 0x0A \<or> c = 0x0D \<or> c = 0x2028 \<or> c = 0x2029"

definition isWhiteSpace :: "jschar \<Rightarrow> bool" where
  "isWhiteSpace c \<longleftrightarrow>
     c = 0x09 \<or> c = 0x0B \<or> c = 0x0C \<or> c = 0x20 \<or> c = 0xA0 \<or> c = 0x1680 \<or>
     (0x2000 \<le> c \<and> c \<le> 0x200A) \<or> c = 0x202F \<or> c = 0x205F \<or> c = 0x3000 \<or> c = 0xFEFF"

text \<open>The class \<^verbatim>\<open>\s\<close>, which is also what \<^verbatim>\<open>String.prototype.trim\<close> strips.\<close>

definition isSpace :: "jschar \<Rightarrow> bool" where
  "isSpace c \<longleftrightarrow> isWhiteSpace c \<or> isLineTerminator c"

definition isDigit :: "jschar \<Rightarrow> bool" where
  "isDigit c \<longleftrightarrow> 0x30 \<le> c \<and> c \<le> 0x39"

definition isLower :: "jschar \<Rightarrow> bool" where
  "isLower c \<longleftrightarrow> 0x61 \<le> c \<and> c \<le> 0x7A"

definition isUpper :: "jschar \<Rightarrow> bool" where
  "isUpper c \<longleftrightarrow> 0x41 \<le> c \<and> c \<le> 0x5A"

text \<open>\<^verbatim>\<open>toUpperCase\<close> on the ASCII letters; the program applies it to the three type
  names \<^verbatim>\<open>component\<close>, \<^verbatim>\<open>metadata\<close>, \<^verbatim>\<open>connection_group\<close> only.\<close>

definition upperChar :: "jschar \<Rightarrow> jschar" where
  "upperChar c = (if isLower c then c - 0x20 else c)"

definition toUpperCase :: "jsstring \<Rightarrow> jsstring" where
  "toUpperCase s = map upperChar s"

definition trim :: "jsstring \<Rightarrow> jsstring" where
  "trim s = rev (dropWhile isSpace (rev (dropWhile isSpace s)))"

fun includes_js :: "jsstring \<Rightarrow> jsstring \<Rightarrow> bool" where
  "includes_js [] x = (x = [])"
| "includes_js (c # s) x = (prefix x (c # s) \<or> includes_js s x)"

fun join :: "jsstring \<Rightarrow> jsstring list \<Rightarrow> jsstring" where
  "join sep [] = []"
| "join sep [x] = x"
| "join sep (x # y # ys) = x @ sep @ join sep (y # ys)"

definition slice :: "jsstring \<Rightarrow> nat \<Rightarrow> nat \<Rightarrow> jsstring" where
  "slice s i j = take (j - i) (drop i s)"

text \<open>Decimal rendering of a count inside a template literal.\<close>

function showNat :: "nat \<Rightarrow> jsstring" where
  "showNat n =
     (if n < 10 then [of_nat (48 + n)] else showNat (n div 10) @ [of_nat (48 + n mod 10)])"
  by pat_completeness auto
termination
  by (relation "measure id") auto

declare showNat.simps [simp del]

section \<open>Regular expressions\<close>

text \<open>
  The fragment of ECMAScript regular expressions the program uses: single-character
  matchers, sequence, ordered alternation, greedy and lazy repetition, capture groups and
  the end assertion \<^verbatim>\<open>$\<close> (with or without the \<^verbatim>\<open>m\<close> flag).  \<open>rmatch\<close> lists
  every way the pattern can match a prefix of the input, in the order in which the
  backtracking matcher of the language tries them; the head of the list is the match.
  Each result is the rest of the input with the captures.  A repetition does not go on
  behind an iteration that matched the empty string.
\<close>

type_synonym caps = "nat \<rightharpoonup> jsstring"

datatype re =
    Chr "jschar \<Rightarrow> bool"
  | Eps
  | Seq re re
  | Alt re re
  | Star re
  | LazyStar re
  | Grp nat re
  | End bool

function rmatch :: "re \<Rightarrow> jsstring \<Rightarrow> caps \<Rightarrow> (jsstring \<times> caps) list" where
  "rmatch (Chr p) s c = (case s of [] \<Rightarrow> [] | x # xs \<Rightarrow> if p x then [(xs, c)] else [])"
| "rmatch Eps s c = [(s, c)]"
| "rmatch (Seq a b) s c = concat (map (\<lambda>(s', c'). rmatch b s' c') (rmatch a s c))"
| "rmatch (Alt a b) s c = rmatch a s c @ rmatch b s c"
| "rmatch (Star a) s c =
     concat (map (\<lambda>(s', c'). if length s' < length s then rmatch (Star a) s' c' else [])
                 (rmatch a s c)) @ [(s, c)]"
| "rmatch (LazyStar a) s c =
     (s, c) # concat (map (\<lambda>(s', c'). if length s' < length s then rmatch (LazyStar a) s' c' else [])
                 (rmatch a s c))"
| "rmatch (Grp i a) s c =
     map (\<lambda>(s', c'). (s', c'(i \<mapsto> take (length s - length s') s))) (rmatch a s c)"
| "rmatch (End m) s c =
     (if s = [] \<or> (m \<and> isLineTerminator (hd s)) then [(s, c)] else [])"
  by pat_completeness auto
termination
  by (relation "measures [\<lambda>(r, s, c). size r, \<lambda>(r, s, c). length s]") auto

declare rmatch.simps [simp del]


definition match_here :: "re \<Rightarrow> jsstring \<Rightarrow> (jsstring \<times> caps) option" where
  "match_here r s = (case rmatch r s Map.empty of [] \<Rightarrow> None | x # _ \<Rightarrow> Some x)"

text \<open>\<open>re_exec r pre s\<close> finds the leftmost match in \<open>s\<close>; the result is the text before
  the match (after \<open>pre\<close>), the matched text, the text after it and the captures.\<close>

fun re_exec :: "re \<Rightarrow> jsstring \<Rightarrow> jsstring \<Rightarrow> (jsstring \<times> jsstring \<times> jsstring \<times> caps) option" where
  "re_exec r pre s =
     (case match_here r s of
        Some (s', c) \<Rightarrow> Some (pre, take (length s - length s') s, s', c)
      | None \<Rightarrow> (case s of [] \<Rightarrow> None | x # xs \<Rightarrow> re_exec r (pre @ [x]) xs))"

declare re_exec.simps [simp del]

text \<open>\<^verbatim>\<open>s.match(r)\<close> for a pattern without the \<^verbatim>\<open>g\<close> flag: the captures of the
  leftmost match, or nothing (\<^verbatim>\<open>null\<close>).\<close>

definition match_js :: "re \<Rightarrow> jsstring \<Rightarrow> caps option" where
  "match_js r s = map_option (\<lambda>(pre, m, rest, c). c) (re_exec r [] s)"

text \<open>\<^verbatim>\<open>r.test(s)\<close> for a pattern with the \<^verbatim>\<open>g\<close> flag: the search starts at the
  pattern's \<^verbatim>\<open>lastIndex\<close>, which a success moves behind the match and a failure
  resets to 0.\<close>

definition test_g :: "re \<Rightarrow> nat \<Rightarrow> jsstring \<Rightarrow> bool \<times> nat" where
  "test_g r lastIndex s =
     (if length s < lastIndex then (False, 0)
      else case re_exec r [] (drop lastIndex s) of
             None \<Rightarrow> (False, 0)
           | Some (pre, m, rest, c) \<Rightarrow> (True, lastIndex + length pre + length m))"

lemma rmatch_suffix: "(s', c') \<in> set (rmatch r s c) \<Longrightarrow> suffix s' s"
proof (induction r s c arbitrary: s' c' rule: rmatch.induct)
  case (1 p s c)
  then show ?case
    by (cases s) (auto simp: rmatch.simps(1) suffix_Cons split: if_splits)
next
  case (2 s c)
  then show ?case by (simp add: rmatch.simps(2))
next
  case (3 a b s c)
  from "3.prems" obtain s1 c1 where "(s1, c1) \<in> set (rmatch a s c)"
    and "(s', c') \<in> set (rmatch b s1 c1)"
    by (auto simp: rmatch.simps(3))
  with "3.IH" show ?case by (blast intro: suffix_order.trans)
next
  case (4 a b s c)
  from "4.prems" have "(s', c') \<in> set (rmatch a s c) \<or> (s', c') \<in> set (rmatch b s c)"
    by (simp add: rmatch.simps(4))
  with "4.IH" show ?case by blast
next
  case (5 a s c)
  from "5.prems" consider "s' = s" |
    s1 c1 where "(s1, c1) \<in> set (rmatch a s c)" "length s1 < length s"
      "(s', c') \<in> set (rmatch (Star a) s1 c1)"
    by (subst (asm) rmatch.simps(5)) (auto split: if_splits)
  then show ?case
  proof cases
    case 1
    then show ?thesis by simp
  next
    case 2
    with "5.IH" show ?thesis by (blast intro: suffix_order.trans)
  qed
next
  case (6 a s c)
  from "6.prems" consider "s' = s" |
    s1 c1 where "(s1, c1) \<in> set (rmatch a s c)" "length s1 < length s"
      "(s', c') \<in> set (rmatch (LazyStar a) s1 c1)"
    by (subst (asm) rmatch.simps(6)) (auto split: if_splits)
  then show ?case
  proof cases
    case 1
    then show ?thesis by simp
  next
    case 2
    with "6.IH" show ?thesis by (blast intro: suffix_order.trans)
  qed
next
  case (7 i a s c)
  from "7.prems" obtain c1 where "(s', c1) \<in> set (rmatch a s c)"
    by (auto simp: rmatch.simps(7))
  with "7.IH" show ?case by blast
next
  case (8 m s c)
  from "8.prems" have "s' = s"
    by (simp add: rmatch.simps(8) split: if_splits)
  then show ?case by simp
qed

lemma match_here_suffix: "match_here r s = Some (s', c) \<Longrightarrow> suffix s' s"
  unfolding match_here_def using rmatch_suffix [of s' c r s Map.empty]
  by (auto split: list.splits)

lemma re_exec_parts: "re_exec r pre s = Some (p, m, rest, c) \<Longrightarrow> pre @ s = p @ m @ rest"
proof (induction r pre s rule: re_exec.induct)
  case (1 r pre s)
  show ?case
  proof (cases "match_here r s")
    case None
    with "1.prems" obtain x xs where s: "s = x # xs" and "re_exec r (pre @ [x]) xs = Some (p, m, rest, c)"
      by (subst (asm) re_exec.simps) (auto split: list.splits)
    with "1.IH" [OF None s] show ?thesis by simp
  next
    case (Some a)
    obtain s' c' where a: "a = (s', c')" by (cases a)
    from match_here_suffix [of r s s' c'] Some a obtain zs where "s = zs @ s'"
      by (auto simp: suffix_def)
    with "1.prems" Some a show ?thesis
      by (subst (asm) re_exec.simps) auto
  qed
qed

text \<open>\<^verbatim>\<open>s.replace(r, f)\<close> for a pattern with the \<^verbatim>\<open>g\<close> flag: every match, left to
  right, is replaced by \<open>f\<close> of the matched text and its captures; behind an empty match
  the search moves on by one code unit.\<close>

function replace_g :: "re \<Rightarrow> (jsstring \<Rightarrow> caps \<Rightarrow> jsstring) \<Rightarrow> jsstring \<Rightarrow> jsstring" where
  "replace_g r f s =
     (case re_exec r [] s of
        None \<Rightarrow> s
      | Some (pre, m, rest, c) \<Rightarrow>
          pre @ f m c @
          (if m \<noteq> [] then replace_g r f rest
           else (case rest of [] \<Rightarrow> [] | x # xs \<Rightarrow> x # replace_g r f xs)))"
  by pat_completeness auto
termination
proof (relation "measure (\<lambda>(r, f, s). length s)", goal_cases)
  case 1
  show ?case by simp
next
  case (2 r f s x2 pre y m z rest c)
  then have "re_exec r [] s = Some (pre, m, rest, c)" by simp
  then have "[] @ s = pre @ m @ rest" by (rule re_exec_parts)
  with 2 show ?case by (cases m) auto
next
  case (3 r f s x2 pre y m z rest c x xs)
  then have "re_exec r [] s = Some (pre, m, rest, c)" by simp
  then have "[] @ s = pre @ m @ rest" by (rule re_exec_parts)
  with 3 show ?case by auto
qed

declare replace_g.simps [simp del]

text \<open>\<^verbatim>\<open>s.split(r)\<close> for a separator pattern that has no capture group and cannot match
  the empty string (the program's only separator is \<^verbatim>\<open>/\n\n+/\<close>).\<close>

function split_loop :: "re \<Rightarrow> jsstring \<Rightarrow> jsstring \<Rightarrow> jsstring list" where
  "split_loop r acc s =
     (case s of
        [] \<Rightarrow> [acc]
      | x # xs \<Rightarrow>
          (case match_here r s of
             None \<Rightarrow> split_loop r (acc @ [x]) xs
           | Some (s', c) \<Rightarrow>
               if length s' < length s then acc # split_loop r [] s'
               else split_loop r (acc @ [x]) xs))"
  by pat_completeness auto
termination
  by (relation "measure (\<lambda>(r, acc, s). length s)") auto

declare split_loop.simps [simp del]

definition split_js :: "re \<Rightarrow> jsstring \<Rightarrow> jsstring list" where
  "split_js r s = split_loop r [] s"

subsection \<open>Pattern syntax\<close>

definition chr :: "jschar \<Rightarrow> re" where
  "chr c = Chr (\<lambda>x. x = c)"

text \<open>A literal character under the \<^verbatim>\<open>i\<close> flag.  All literals of the program are
  ASCII, and without the \<^verbatim>\<open>u\<close> flag no code unit above 127 is identified with an
  ASCII one.\<close>

definition chr_i :: "jschar \<Rightarrow> re" where
  "chr_i c = Chr (\<lambda>x. upperChar x = upperChar c)"

definition lit :: "string \<Rightarrow> re" where
  "lit s = foldr (\<lambda>c r. Seq (chr (of_char c)) r) s Eps"

definition lit_i :: "string \<Rightarrow> re" where
  "lit_i s = foldr (\<lambda>c r. Seq (chr_i (of_char c)) r) s Eps"

definition oneOf :: "string \<Rightarrow> re" where
  "oneOf s = Chr (\<lambda>x. x \<in> set (js s))"

definition noneOf :: "string \<Rightarrow> re" where
  "noneOf s = Chr (\<lambda>x. x \<notin> set (js s))"

definition Plus :: "re \<Rightarrow> re" where
  "Plus a = Seq a (Star a)"

definition Opt :: "re \<Rightarrow> re" where
  "Opt a = Alt a Eps"

fun alts :: "re list \<Rightarrow> re" where
  "alts [] = Chr (\<lambda>x. False)"
| "alts [r] = r"
| "alts (r # rs) = Alt r (alts rs)"

fun seqs :: "re list \<Rightarrow> re" where
  "seqs [] = Eps"
| "seqs [r] = r"
| "seqs (r # rs) = Seq r (seqs rs)"

section \<open>Remote Call Client: \<^verbatim>\<open>callOpenAIWithRetry\<close>\<close>

text \<open>
  What the HTTP client throws: an error object with a message and, when the server
  answered, the response.  Of the response the program reads \<^verbatim>\<open>status\<close> and
  \<^verbatim>\<open>data.error.message\<close> (absent when that chain of fields is); \<open>data\<close> stands for the
  whole body, which the handlers send on to their caller.
\<close>

record err_response =
  status :: nat
  error_message :: "jsstring option"
  data :: jsstring

datatype thrown = Thrown (message: jsstring) (response: "err_response option")

text \<open>
  The world outside the program: the outcome of the \<open>n\<close>-th HTTP request (for its
  payload) and the \<open>n\<close>-th value of \<^verbatim>\<open>Math.random()\<close>.
\<close>

record ('q, 'r) env =
  service :: "nat \<Rightarrow> 'q \<Rightarrow> thrown + 'r"
  random :: "nat \<Rightarrow> real"

text \<open>What the program has done to the world so far: the number of HTTP requests issued,
  the number of random numbers drawn, the durations slept (milliseconds, oldest first), and
  the payload of every invocation of \<open>callOpenAIWithRetry\<close> (oldest first; the program
  itself keeps no such list, it is here to count the invocations).\<close>

record 'q world =
  attempts :: nat
  draws :: nat
  sleeps :: "real list"
  calls :: "'q list"

text \<open>\<^verbatim>\<open>/try again in (\d+\.\d+)s/\<close>\<close>

definition hintPattern :: re where
  "hintPattern =
     seqs [lit ''try again in '',
           Grp 1 (seqs [Plus (Chr isDigit), chr 0x2E, Plus (Chr isDigit)]),
           chr 0x73]"

definition digitsVal :: "jsstring \<Rightarrow> nat" where
  "digitsVal ds = foldl (\<lambda>n d. 10 * n + (unat d - 48)) 0 ds"

text \<open>\<^verbatim>\<open>parseFloat\<close> on a capture of \<^verbatim>\<open>\d+\.\d+\<close>.  The value is the exact decimal;
  the rounding to a double is not modelled.\<close>

definition parseFloat :: "jsstring \<Rightarrow> real" where
  "parseFloat s =
     (let ip = takeWhile isDigit s;
          fp = takeWhile isDigit (drop (Suc (length ip)) s)
      in real (digitsVal ip) + real (digitsVal fp) / 10 ^ length fp)"

text \<open>The server's hint in seconds: \<^verbatim>\<open>parseFloat(match[1])\<close> where the guards of
  lines 40 to 42 all pass.\<close>

definition hintSeconds :: "err_response \<Rightarrow> real option" where
  "hintSeconds r =
     (case error_message r of
        None \<Rightarrow> None
      | Some msg \<Rightarrow>
          if msg = [] then None
          else (case match_js hintPattern msg of
                  None \<Rightarrow> None
                | Some c \<Rightarrow>
                    (case c 1 of
                       None \<Rightarrow> None
                     | Some m1 \<Rightarrow> if m1 = [] then None else Some (parseFloat m1))))"

definition waitTime :: "err_response \<Rightarrow> real" where
  "waitTime r =
     (case hintSeconds r of
        None \<Rightarrow> 30000
      | Some h \<Rightarrow> real_of_int \<lceil>h * 1000\<rceil> + 1000)"

definition exhausted :: "nat \<Rightarrow> thrown" where
  "exhausted maxRetries =
     Thrown (js ''Failed after '' @ showNat maxRetries @ js '' retries'') None"

function retryLoop ::
  "('q, 'r) env \<Rightarrow> 'q \<Rightarrow> nat \<Rightarrow> nat \<Rightarrow> 'q world \<Rightarrow> (thrown + 'r) \<times> 'q world" where
  "retryLoop e dat maxRetries retries w =
     (if retries \<le> maxRetries then
        (case service e (attempts w) dat of
           Inr resp \<Rightarrow> (Inr resp, w\<lparr>attempts := Suc (attempts w)\<rparr>)
         | Inl err \<Rightarrow>
             (case response err of
                Some r \<Rightarrow>
                  if status r = 429 then
                    (let jitter = random e (draws w) * 1000;
                         actualWaitTime = waitTime r + real retries * 5000 + jitter
                     in retryLoop e dat maxRetries (Suc retries)
                          (w\<lparr>attempts := Suc (attempts w), draws := Suc (draws w),
                             sleeps := sleeps w @ [actualWaitTime]\<rparr>))
                  else (Inl err, w\<lparr>attempts := Suc (attempts w)\<rparr>)
              | None \<Rightarrow> (Inl err, w\<lparr>attempts := Suc (attempts w)\<rparr>)))
      else (Inl (exhausted maxRetries), w))"
  by pat_completeness auto
termination
  by (relation "measure (\<lambda>(e, dat, maxRetries, retries, w). Suc maxRetries - retries)") auto

declare retryLoop.simps [simp del]

definition callOpenAIWithRetry ::
  "('q, 'r) env \<Rightarrow> 'q \<Rightarrow> nat \<Rightarrow> 'q world \<Rightarrow> (thrown + 'r) \<times> 'q world" where
  "callOpenAIWithRetry e dat maxRetries w =
     retryLoop e dat maxRetries 0 (w\<lparr>calls := calls w @ [dat]\<rparr>)"

text \<open>A rate-limit rejection: the error carries a response whose status is 429.\<close>

definition rateLimited :: "thrown \<Rightarrow> bool" where
  "rateLimited err = (case response err of Some r \<Rightarrow> status r = 429 | None \<Rightarrow> False)"

section \<open>JSON values and \<^verbatim>\<open>JSON.parse\<close>\<close>

text \<open>
  The values \<^verbatim>\<open>JSON.parse\<close> produces.  A number is kept as the text that denotes it (the
  rounding to a double is not modelled); an object is the list of its properties in the
  order in which the language enumerates them.
\<close>

datatype json =
    JNull
  | JBool bool
  | JNumber jsstring
  | JString jsstring
  | JArray "json list"
  | JObject "(jsstring \<times> json) list"

definition isJsonSpace :: "jschar \<Rightarrow> bool" where
  "isJsonSpace c \<longleftrightarrow> c = 0x20 \<or> c = 0x09 \<or> c = 0x0A \<or> c = 0x0D"

definition skip_ws :: "jsstring \<Rightarrow> jsstring" where
  "skip_ws s = dropWhile isJsonSpace s"

definition hexVal :: "jschar \<Rightarrow> nat option" where
  "hexVal c =
     (if isDigit c then Some (unat c - 48)
      else if 0x61 \<le> c \<and> c \<le> 0x66 then Some (unat c - 87)
      else if 0x41 \<le> c \<and> c \<le> 0x46 then Some (unat c - 55)
      else None)"

definition unescape :: "jschar \<Rightarrow> jschar option" where
  "unescape e =
     (if e = 0x22 \<or> e = 0x5C \<or> e = 0x2F then Some e
      else if e = 0x62 then Some 0x08
      else if e = 0x66 then Some 0x0C
      else if e = 0x6E then Some 0x0A
      else if e = 0x72 then Some 0x0D
      else if e = 0x74 then Some 0x09
      else None)"

text \<open>The characters of a string literal behind its opening quote, up to the closing one.\<close>

fun str_chars :: "jsstring \<Rightarrow> jsstring \<Rightarrow> (jsstring \<times> jsstring) option" where
  "str_chars acc [] = None"
| "str_chars acc (c # s) =
     (if c = 0x22 then Some (acc, s)
      else if c = 0x5C then
        (case s of
           [] \<Rightarrow> None
         | e # t \<Rightarrow>
             if e = 0x75 then
               (case t of
                  h1 # h2 # h3 # h4 # t' \<Rightarrow>
                    (case (hexVal h1, hexVal h2, hexVal h3, hexVal h4) of
                       (Some x1, Some x2, Some x3, Some x4) \<Rightarrow>
                         str_chars (acc @ [of_nat (((x1 * 16 + x2) * 16 + x3) * 16 + x4)]) t'
                     | _ \<Rightarrow> None)
                | _ \<Rightarrow> None)
             else (case unescape e of
                     Some u \<Rightarrow> str_chars (acc @ [u]) t
                   | None \<Rightarrow> None))
      else if c < 0x20 then None
      else str_chars (acc @ [c]) s)"

text \<open>The longest prefix that is a JSON number: \<^verbatim>\<open>-?(0|[1-9]\d*)(\.\d+)?([eE][+-]?\d+)?\<close>.\<close>

definition pint :: "jsstring \<Rightarrow> (jsstring \<times> jsstring) option" where
  "pint s =
     (case s of
        [] \<Rightarrow> None
      | d # t \<Rightarrow>
          if d = 0x30 then Some ([d], t)
          else if isDigit d then Some (takeWhile isDigit s, dropWhile isDigit s)
          else None)"

definition pfrac :: "jsstring \<Rightarrow> (jsstring \<times> jsstring) option" where
  "pfrac s =
     (case s of
        [] \<Rightarrow> Some ([], s)
      | d # t \<Rightarrow>
          if d = 0x2E then
            (if takeWhile isDigit t = [] then None
             else Some (d # takeWhile isDigit t, dropWhile isDigit t))
          else Some ([], s))"

definition pexp :: "jsstring \<Rightarrow> (jsstring \<times> jsstring) option" where
  "pexp s =
     (case s of
        [] \<Rightarrow> Some ([], s)
      | e # t \<Rightarrow>
          if e = 0x65 \<or> e = 0x45 then
            (let sg = (case t of [] \<Rightarrow> [] | g # _ \<Rightarrow> if g = 0x2B \<or> g = 0x2D then [g] else []);
                 t' = drop (length sg) t
             in if takeWhile isDigit t' = [] then None
                else Some (e # sg @ takeWhile isDigit t', dropWhile isDigit t'))
          else Some ([], s))"

definition pnumber :: "jsstring \<Rightarrow> (jsstring \<times> jsstring) option" where
  "pnumber s =
     (let sg = (case s of [] \<Rightarrow> [] | g # _ \<Rightarrow> if g = 0x2D then [g] else [])
      in case pint (drop (length sg) s) of
           None \<Rightarrow> None
         | Some (ip, s1) \<Rightarrow>
             (case pfrac s1 of
                None \<Rightarrow> None
              | Some (fp, s2) \<Rightarrow>
                  (case pexp s2 of
                     None \<Rightarrow> None
                   | Some (ep, s3) \<Rightarrow> Some (sg @ ip @ fp @ ep, s3))))"

text \<open>A property key that is an array index (a canonical numeric string below
  \<open>2^32 - 1\<close>); the language enumerates such keys first, in ascending order.\<close>

definition isArrayIndex :: "jsstring \<Rightarrow> bool" where
  "isArrayIndex k \<longleftrightarrow>
     k \<noteq> [] \<and> list_all isDigit k \<and> (length k = 1 \<or> hd k \<noteq> 0x30) \<and>
     digitsVal k < 4294967295"

fun insertIndex :: "jsstring \<Rightarrow> json \<Rightarrow> (jsstring \<times> json) list \<Rightarrow> (jsstring \<times> json) list" where
  "insertIndex k v [] = [(k, v)]"
| "insertIndex k v ((k', v') # ps) =
     (if isArrayIndex k' \<and> digitsVal k' < digitsVal k then (k', v') # insertIndex k v ps
      else (k, v) # (k', v') # ps)"

text \<open>Defining a property: an existing key keeps its place and takes the new value.\<close>

definition obj_put :: "(jsstring \<times> json) list \<Rightarrow> jsstring \<Rightarrow> json \<Rightarrow> (jsstring \<times> json) list" where
  "obj_put ps k v =
     (if k \<in> set (map fst ps) then map (\<lambda>(k', v'). if k' = k then (k, v) else (k', v')) ps
      else if isArrayIndex k then insertIndex k v ps
      else ps @ [(k, v)])"

definition obj_get :: "(jsstring \<times> json) list \<Rightarrow> jsstring \<Rightarrow> json option" where
  "obj_get ps k = map_of ps k"

lemma length_skip_ws: "length (skip_ws s) \<le> length s"
  by (simp add: skip_ws_def length_dropWhile_le)

lemma str_chars_length: "str_chars acc s = Some (k, r) \<Longrightarrow> length r < length s"
proof (induction acc s rule: str_chars.induct)
  case (1 acc)
  then show ?case by simp
next
  case (2 acc c s)
  show ?case
  proof (cases "c = 0x22")
    case True
    with "2.prems" show ?thesis by simp
  next
    case nq: False
    show ?thesis
    proof (cases "c = 0x5C")
      case False
      with nq "2.prems" "2.IH"(3) show ?thesis
        by (auto split: if_splits)
    next
      case bs: True
      with nq "2.prems" obtain e t where s: "s = e # t"
        by (cases s) auto
      show ?thesis
      proof (cases "e = 0x75")
        case False
        with nq bs s "2.prems" obtain u where u: "unescape e = Some u"
          and "str_chars (acc @ [u]) t = Some (k, r)"
          by (auto split: option.splits)
        with "2.IH"(2) [OF nq bs s False u] s show ?thesis by simp
      next
        case True
        with nq bs s "2.prems" obtain h1 h2 h3 h4 t' x1 x2 x3 x4 where
          t: "t = h1 # h2 # h3 # h4 # t'" and
          h: "(hexVal h1, hexVal h2, hexVal h3, hexVal h4) = (Some x1, Some x2, Some x3, Some x4)" and
          r: "str_chars (acc @ [of_nat (((x1 * 16 + x2) * 16 + x3) * 16 + x4)]) t' = Some (k, r)"
          by (auto split: list.splits option.splits)
        from "2.IH"(1) [OF nq bs s True t] h r
        have "length r < length t'" by auto
        with s t show ?thesis by simp
      qed
    qed
  qed
qed

text \<open>
  The recursive-descent parser: a value; the elements of an array behind its opening
  bracket; the members of an object behind its opening brace.  The tests
  \<open>length r < length s\<close> hold whenever they are reached (a value is never empty) and
  let the definition be accepted as total.
\<close>

function pvalue :: "jsstring \<Rightarrow> (json \<times> jsstring) option"
  and pelems :: "json list \<Rightarrow> jsstring \<Rightarrow> (json \<times> jsstring) option"
  and pmembers :: "(jsstring \<times> json) list \<Rightarrow> jsstring \<Rightarrow> (json \<times> jsstring) option"
where
  "pvalue s =
     (case s of
        [] \<Rightarrow> None
      | c # t \<Rightarrow>
          if c = 0x7B then
            (case skip_ws t of
               [] \<Rightarrow> None
             | d # r \<Rightarrow> if d = 0x7D then Some (JObject [], r) else pmembers [] (skip_ws t))
          else if c = 0x5B then
            (case skip_ws t of
               [] \<Rightarrow> None
             | d # r \<Rightarrow> if d = 0x5D then Some (JArray [], r) else pelems [] (skip_ws t))
          else if c = 0x22 then
            (case str_chars [] t of None \<Rightarrow> None | Some (str, r) \<Rightarrow> Some (JString str, r))
          else if prefix (js ''true'') s then Some (JBool True, drop 4 s)
          else if prefix (js ''false'') s then Some (JBool False, drop 5 s)
          else if prefix (js ''null'') s then Some (JNull, drop 4 s)
          else (case pnumber s of None \<Rightarrow> None | Some (n, r) \<Rightarrow> Some (JNumber n, r)))"
| "pelems acc s =
     (case pvalue s of
        None \<Rightarrow> None
      | Some (v, r) \<Rightarrow>
          if length r < length s then
            (case skip_ws r of
               [] \<Rightarrow> None
             | d # r' \<Rightarrow>
                 if d = 0x2C then pelems (acc @ [v]) (skip_ws r')
                 else if d = 0x5D then Some (JArray (acc @ [v]), r')
                 else None)
          else None)"
| "pmembers acc s =
     (case s of
        [] \<Rightarrow> None
      | q # t \<Rightarrow>
          if q = 0x22 then
            (case str_chars [] t of
               None \<Rightarrow> None
             | Some (k, r) \<Rightarrow>
                 (case skip_ws r of
                    [] \<Rightarrow> None
                  | col # r1 \<Rightarrow>
                      if col = 0x3A then
                        (case pvalue (skip_ws r1) of
                           None \<Rightarrow> None
                         | Some (v, r2) \<Rightarrow>
                             if length r2 < length s then
                               (case skip_ws r2 of
                                  [] \<Rightarrow> None
                                | d # r3 \<Rightarrow>
                                    if d = 0x2C then pmembers (obj_put acc k v) (skip_ws r3)
                                    else if d = 0x7D then Some (JObject (obj_put acc k v), r3)
                                    else None)
                             else None)
                      else None))
          else None)"
  by pat_completeness auto
termination
proof (relation "measures
    [\<lambda>x. case x of Inl s \<Rightarrow> length s | Inr (Inl (a, s)) \<Rightarrow> length s | Inr (Inr (a, s)) \<Rightarrow> length s,
     \<lambda>x. case x of Inl s \<Rightarrow> 0 | Inr (Inl (a, s)) \<Rightarrow> 1 | Inr (Inr (a, s)) \<Rightarrow> 1]", goal_cases)
  case 1
  show ?case by simp
next
  case (2 s c t d r)
  have "length (skip_ws t) \<le> length t" by (rule length_skip_ws)
  with \<open>s = c # t\<close> have "length (skip_ws t) < length s" by simp
  then show ?case by simp
next
  case (3 s c t d r)
  have "length (skip_ws t) \<le> length t" by (rule length_skip_ws)
  with \<open>s = c # t\<close> have "length (skip_ws t) < length s" by simp
  then show ?case by simp
next
  case (4 acc s)
  show ?case by simp
next
  case (5 acc s x2 v r d r')
  have "length (skip_ws r') \<le> length r'" by (rule length_skip_ws)
  moreover have "length (skip_ws r) \<le> length r" by (rule length_skip_ws)
  moreover from \<open>skip_ws r = d # r'\<close> have "length (skip_ws r) = Suc (length r')" by simp
  ultimately have "length (skip_ws r') < length s"
    using \<open>length r < length s\<close> by linarith
  then show ?case by simp
next
  case (6 acc s q t x2 k r col r1)
  from \<open>(k, r) = x2\<close> \<open>str_chars [] t = Some x2\<close> have "str_chars [] t = Some (k, r)"
    by simp
  then have "length r < length t" by (rule str_chars_length)
  moreover have "length (skip_ws r1) \<le> length r1" by (rule length_skip_ws)
  moreover have "length (skip_ws r) \<le> length r" by (rule length_skip_ws)
  moreover from \<open>skip_ws r = col # r1\<close> have "length (skip_ws r) = Suc (length r1)" by simp
  moreover from \<open>s = q # t\<close> have "length s = Suc (length t)" by simp
  ultimately have "length (skip_ws r1) < length s" by linarith
  then show ?case by simp
next
  case (7 acc s q t x2 k r col r1 x2a v r2 d r3)
  have "length (skip_ws r3) \<le> length r3" by (rule length_skip_ws)
  moreover have "length (skip_ws r2) \<le> length r2" by (rule length_skip_ws)
  moreover from \<open>skip_ws r2 = d # r3\<close> have "length (skip_ws r2) = Suc (length r3)" by simp
  ultimately have "length (skip_ws r3) < length s"
    using \<open>length r2 < length s\<close> by linarith
  then show ?case by simp
qed

declare pvalue.simps [simp del] pelems.simps [simp del] pmembers.simps [simp del]

text \<open>
  \<^verbatim>\<open>JSON.parse\<close> of a string: the whole text must be one value between optional white
  space, otherwise a \<^verbatim>\<open>SyntaxError\<close> is thrown.  The wording of the error message is the
  engine's; the model gives every syntax error the same message.
\<close>

definition syntaxError :: jsstring where
  "syntaxError = js ''Unexpected token in JSON''"

definition JSON_parse :: "jsstring \<Rightarrow> jsstring + json" where
  "JSON_parse s =
     (case pvalue (skip_ws s) of
        None \<Rightarrow> Inl syntaxError
      | Some (v, r) \<Rightarrow> if skip_ws r = [] then Inr v else Inl syntaxError)"

section \<open>Output Recovery Parser: \<^verbatim>\<open>cleanAndFixJSON\<close>\<close>

text \<open>A capture in a replacement: a group that took no part in the match gives the
  empty string.\<close>

definition cap :: "caps \<Rightarrow> nat \<Rightarrow> jsstring" where
  "cap c i = (case c i of Some x \<Rightarrow> x | None \<Rightarrow> [])"

definition sp :: re where
  "sp = Chr isSpace"

definition isWordChar :: "jschar \<Rightarrow> bool" where
  "isWordChar c \<longleftrightarrow> isLower c \<or> isUpper c \<or> isDigit c \<or> c = 0x5F"

definition dq :: jschar where
  "dq = 0x22"

definition notQuote :: re where
  "notQuote = Chr (\<lambda>x. x \<noteq> dq)"

text \<open>\<^verbatim>\<open>/```json\n|\n```|```/g\<close>\<close>

definition fencePattern :: re where
  "fencePattern = alts [lit ''```json\<newline>'', lit ''\<newline>```'', lit ''```'']"

text \<open>\<^verbatim>\<open>/,(\s*[}\]])/g\<close>\<close>

definition trailingCommaPattern :: re where
  "trailingCommaPattern = Seq (chr 0x2C) (Grp 1 (Seq (Star sp) (oneOf ''}]'')))"

text \<open>\<^verbatim>\<open>/([{,]\s*)([a-zA-Z0-9_]+)(\s*:)/g\<close>\<close>

definition bareKeyPattern :: re where
  "bareKeyPattern =
     seqs [Grp 1 (Seq (oneOf ''{,'') (Star sp)),
           Grp 2 (Plus (Chr isWordChar)),
           Grp 3 (Seq (Star sp) (chr 0x3A))]"

text \<open>\<^verbatim>\<open>/:\s*"([^"]*)\s*([,}])/g\<close>\<close>

definition openValuePattern :: re where
  "openValuePattern =
     seqs [chr 0x3A, Star sp, chr dq, Grp 1 (Star notQuote), Star sp, Grp 2 (oneOf '',}'')]"

text \<open>\<^verbatim>\<open>/:\s*"([^"]*)$/g\<close>\<close>

definition openValueAtEndPattern :: re where
  "openValueAtEndPattern =
     seqs [chr 0x3A, Star sp, chr dq, Grp 1 (Star notQuote), End False]"

text \<open>\<^verbatim>\<open>/\/\/.*$/gm\<close>\<close>

definition lineCommentPattern :: re where
  "lineCommentPattern =
     seqs [lit ''//'', Star (Chr (\<lambda>x. \<not> isLineTerminator x)), End True]"

text \<open>\<^verbatim>\<open>/\/\*[\s\S]*?\*\//g\<close>\<close>

definition blockCommentPattern :: re where
  "blockCommentPattern = seqs [lit ''/*'', LazyStar (Chr (\<lambda>x. True)), lit ''*/'']"

definition basicCleanup :: "jsstring \<Rightarrow> jsstring" where
  "basicCleanup jsonString =
     (let s0 = replace_g fencePattern (\<lambda>m c. []) jsonString;
          s1 = replace_g trailingCommaPattern (\<lambda>m c. cap c 1) s0;
          s2 = replace_g bareKeyPattern (\<lambda>m c. cap c 1 @ [dq] @ cap c 2 @ [dq] @ cap c 3) s1;
          s3 = replace_g (chr 0x27) (\<lambda>m c. [dq]) s2;
          s4 = replace_g (chr 0x0A) (\<lambda>m c. [0x20]) s3;
          s5 = replace_g (Plus sp) (\<lambda>m c. [0x20]) s4;
          s6 = replace_g openValuePattern (\<lambda>m c. [0x3A, dq] @ cap c 1 @ [dq] @ cap c 2) s5;
          s7 = replace_g openValueAtEndPattern (\<lambda>m c. [0x3A, dq] @ cap c 1 @ [dq]) s6;
          s8 = replace_g lineCommentPattern (\<lambda>m c. []) s7
      in replace_g blockCommentPattern (\<lambda>m c. []) s8)"

text \<open>\<^verbatim>\<open>/"\s*:\s*"[^"]*[^"]$/\<close>\<close>

definition danglingValuePattern :: re where
  "danglingValuePattern =
     seqs [chr dq, Star sp, chr 0x3A, Star sp, chr dq, Star notQuote, notQuote, End False]"

text \<open>\<^verbatim>\<open>/("\s*:\s*"[^"]*[^"])(\s*[,}])/g\<close>\<close>

definition unclosedValuePattern :: re where
  "unclosedValuePattern =
     seqs [Grp 1 (seqs [chr dq, Star sp, chr 0x3A, Star sp, chr dq, Star notQuote, notQuote]),
           Grp 2 (Seq (Star sp) (oneOf '',}''))]"

text \<open>\<^verbatim>\<open>/"([^"]*)"([^"]*)"([^"]*)"/g\<close>\<close>

definition innerQuotesPattern :: re where
  "innerQuotesPattern =
     seqs [chr dq, Grp 1 (Star notQuote), chr dq, Grp 2 (Star notQuote), chr dq,
           Grp 3 (Star notQuote), chr dq]"

definition countChar :: "jschar \<Rightarrow> jsstring \<Rightarrow> nat" where
  "countChar x s = length (filter (\<lambda>c. c = x) s)"

definition aggressiveFix :: "jsstring \<Rightarrow> jsstring" where
  "aggressiveFix cleanedJSON =
     (let c1 = (if match_js danglingValuePattern cleanedJSON \<noteq> None
                then replace_g unclosedValuePattern (\<lambda>m c. cap c 1 @ [dq] @ cap c 2) cleanedJSON
                else cleanedJSON);
          c2 = replace_g innerQuotesPattern
                 (\<lambda>m c. [dq] @ cap c 1 @ [0x5C, dq] @ cap c 2 @ [0x5C, dq] @ cap c 3 @ [dq]) c1;
          openBraces = countChar 0x7B c2;
          closeBraces = countChar 0x7D c2;
          openBrackets = countChar 0x5B c2;
          closeBrackets = countChar 0x5D c2;
          c3 = (if openBraces > closeBraces
                then c2 @ replicate (openBraces - closeBraces) 0x7D else c2)
      in if openBrackets > closeBrackets
         then c3 @ replicate (openBrackets - closeBrackets) 0x5D else c3)"

text \<open>The last resort of lines 306 to 311; \<open>now\<close> is the reading of the clock,
  \<^verbatim>\<open>new Date().toISOString()\<close>.\<close>

definition degraded :: "jsstring \<Rightarrow> jsstring \<Rightarrow> json" where
  "degraded errorMessage now =
     JObject [(js ''error'', JString (js ''JSON parsing failed'')),
              (js ''errorMessage'', JString errorMessage),
              (js ''timestamp'', JString now),
              (js ''summary'',
               JString (js ''Error in analysis output format. Please check server logs.''))]"

text \<open>
  \<open>parse\<close> stands for \<^verbatim>\<open>JSON.parse\<close>: the parsed value, or the message of the
  \<^verbatim>\<open>SyntaxError\<close> it throws.
\<close>

definition cleanAndFixJSON :: "(jsstring \<Rightarrow> jsstring + json) \<Rightarrow> jsstring \<Rightarrow> jsstring \<Rightarrow> json" where
  "cleanAndFixJSON parse now jsonString =
     (case parse jsonString of
        Inr v \<Rightarrow> v
      | Inl error \<Rightarrow>
          (let cleanedJSON = basicCleanup jsonString
           in case parse cleanedJSON of
                Inr v \<Rightarrow> v
              | Inl parseError \<Rightarrow>
                  (let cleanedJSON' = aggressiveFix cleanedJSON
                   in case parse cleanedJSON' of
                        Inr v \<Rightarrow> v
                      | Inl finalError \<Rightarrow> degraded finalError now)))"

section \<open>Batch Reducer: step 3 of \<^verbatim>\<open>/api/analyze-security\<close>\<close>

text \<open>
  The system message of a request is one of three fixed templates; the model keeps the
  values the template interpolates: position and count for a chunk, position and count
  for a batch, the number of batches for the final consolidation, and in each the reading
  of the clock.
\<close>

datatype prompt =
    ChunkPrompt nat nat jsstring
  | BatchPrompt nat nat jsstring
  | FinalPrompt nat jsstring

record payload =
  model :: jsstring
  system :: prompt
  user :: jsstring

text \<open>What the handler sends back: the JSON body of a success, or a status with an
  error body.\<close>

record result_body =
  result :: jsstring
  processedChunks :: nat
  totalChunks :: nat
  error :: "jsstring option"

datatype reply = ResultReply result_body | ErrorReply nat jsstring

definition batchSize :: nat where
  "batchSize = 10"

function batchLoop :: "nat \<Rightarrow> 'a list \<Rightarrow> 'a list list" where
  "batchLoop i chunkResults =
     (if i < length chunkResults
      then take batchSize (drop i chunkResults) # batchLoop (i + batchSize) chunkResults
      else [])"
  by pat_completeness auto
termination
  by (relation "measure (\<lambda>(i, chunkResults). length chunkResults - i)")
     (auto simp: batchSize_def)

declare batchLoop.simps [simp del]

definition chunkSeparator :: jsstring where
  "chunkSeparator = js ''\<newline>\<newline>====CHUNK SEPARATOR====\<newline>\<newline>''"

definition batchSeparator :: jsstring where
  "batchSeparator = js ''\<newline>\<newline>====BATCH SEPARATOR====\<newline>\<newline>''"

text \<open>The pause between two calls: \<^verbatim>\<open>sleep(1000 + Math.random() * 1000)\<close>.\<close>

definition pause :: "('q, 'r) env \<Rightarrow> 'q world \<Rightarrow> 'q world" where
  "pause e w = w\<lparr>draws := Suc (draws w), sleeps := sleeps w @ [1000 + random e (draws w) * 1000]\<rparr>"

text \<open>
  The loop over the batches (lines 458 to 535).  The response of a successful call is
  modelled by its \<^verbatim>\<open>data.choices[0].message.content\<close>, a string.  \<open>stringify\<close> stands for
  \<^verbatim>\<open>JSON.stringify\<close>.  The \<^verbatim>\<open>catch\<close> around \<open>cleanAndFixJSON\<close> has no counterpart:
  on a string \<open>cleanAndFixJSON\<close> does not throw.
\<close>

function processBatches ::
  "(payload, jsstring) env \<Rightarrow> (jsstring \<Rightarrow> jsstring + json) \<Rightarrow> (json \<Rightarrow> jsstring) \<Rightarrow> jsstring \<Rightarrow>
   jsstring list list \<Rightarrow> nat \<Rightarrow> jsstring list \<Rightarrow> payload world \<Rightarrow>
   (thrown + jsstring list) \<times> payload world" where
  "processBatches e parse stringify now batches i batchResults w =
     (if i < length batches then
        (case callOpenAIWithRetry e
                \<lparr>model = js ''gpt-4o'', system = BatchPrompt (i + 1) (length batches) now,
                 user = join chunkSeparator (batches ! i)\<rparr> 5 w of
           (Inl err, w1) \<Rightarrow> (Inl err, w1)
         | (Inr batchContent, w1) \<Rightarrow>
             (let parsedContent = cleanAndFixJSON parse now batchContent;
                  batchResults' = batchResults @ [stringify parsedContent];
                  w2 = (if i < length batches - 1 then pause e w1 else w1)
              in processBatches e parse stringify now batches (Suc i) batchResults' w2))
      else (Inr batchResults, w))"
  by pat_completeness auto
termination
  by (relation "measure (\<lambda>(e, parse, stringify, now, batches, i, batchResults, w). length batches - i)")
     auto

declare processBatches.simps [simp del]

text \<open>
  Truthiness of a parsed value, for \<^verbatim>\<open>!finalResult.timestamp\<close>.  A number is falsy when
  it is zero, that is when its digits before the exponent are all zeros.
\<close>

definition isZeroNumber :: "jsstring \<Rightarrow> bool" where
  "isZeroNumber n \<longleftrightarrow>
     list_all (\<lambda>c. \<not> isDigit c \<or> c = 0x30) (takeWhile (\<lambda>c. c \<noteq> 0x65 \<and> c \<noteq> 0x45) n)"

fun truthy :: "json \<Rightarrow> bool" where
  "truthy JNull = False"
| "truthy (JBool b) = b"
| "truthy (JNumber n) = (\<not> isZeroNumber n)"
| "truthy (JString s) = (s \<noteq> [])"
| "truthy (JArray vs) = True"
| "truthy (JObject ps) = True"

text \<open>
  Lines 597 to 599 and 621 to 623: \<^verbatim>\<open>if (!finalResult.timestamp) finalResult.timestamp = ...\<close>.
  Reading a property of \<^verbatim>\<open>null\<close> throws a \<^verbatim>\<open>TypeError\<close>; on a boolean, number or
  string the read gives \<^verbatim>\<open>undefined\<close> and the assignment is dropped without effect; on
  an array the assignment sets a property that \<^verbatim>\<open>JSON.stringify\<close> does not write.
\<close>

definition nullTypeError :: jsstring where
  "nullTypeError = js ''Cannot read properties of null (reading 'timestamp')''"

fun addTimestamp :: "jsstring \<Rightarrow> json \<Rightarrow> jsstring + json" where
  "addTimestamp now JNull = Inl nullTypeError"
| "addTimestamp now (JObject ps) =
     (case obj_get ps (js ''timestamp'') of
        None \<Rightarrow> Inr (JObject (obj_put ps (js ''timestamp'') (JString now)))
      | Some t \<Rightarrow>
          if truthy t then Inr (JObject ps)
          else Inr (JObject (obj_put ps (js ''timestamp'') (JString now))))"
| "addTimestamp now v = Inr v"

text \<open>The \<^verbatim>\<open>try\<close>/\<^verbatim>\<open>catch\<close> that builds the answer from the final text (lines 594 to 614
  and 618 to 638).\<close>

definition finish ::
  "(jsstring \<Rightarrow> jsstring + json) \<Rightarrow> (json \<Rightarrow> jsstring) \<Rightarrow> jsstring \<Rightarrow> jsstring \<Rightarrow> nat \<Rightarrow> nat \<Rightarrow> reply" where
  "finish parse stringify now finalContent processed nchunks =
     (case addTimestamp now (cleanAndFixJSON parse now finalContent) of
        Inr finalResult \<Rightarrow>
          ResultReply \<lparr>result = stringify finalResult, processedChunks = processed,
                       totalChunks = nchunks, error = None\<rparr>
      | Inl parseError \<Rightarrow>
          ResultReply \<lparr>result = finalContent, processedChunks = processed,
                       totalChunks = nchunks,
                       error = Some (js ''JSON parsing failed: '' @ parseError)\<rparr>)"

text \<open>The outer \<^verbatim>\<open>catch\<close> of the handler (lines 642 to 650).\<close>

definition errorReply :: "thrown \<Rightarrow> reply" where
  "errorReply err =
     (case response err of
        Some r \<Rightarrow> ErrorReply (status r) (data r)
      | None \<Rightarrow> ErrorReply 500 (message err))"

text \<open>
  Step 3 (lines 443 to 641), from the list \<open>chunkResults\<close> of serialized partial reports;
  \<open>nchunks\<close> is \<^verbatim>\<open>chunks.length\<close>.
\<close>

definition reduceReports ::
  "(payload, jsstring) env \<Rightarrow> (jsstring \<Rightarrow> jsstring + json) \<Rightarrow> (json \<Rightarrow> jsstring) \<Rightarrow> jsstring \<Rightarrow>
   jsstring list \<Rightarrow> nat \<Rightarrow> payload world \<Rightarrow> reply \<times> payload world" where
  "reduceReports e parse stringify now chunkResults nchunks w =
     (if length chunkResults > 1 then
        (let batches = batchLoop 0 chunkResults
         in case processBatches e parse stringify now batches 0 [] w of
              (Inl err, w1) \<Rightarrow> (errorReply err, w1)
            | (Inr batchResults, w1) \<Rightarrow>
                (case callOpenAIWithRetry e
                        \<lparr>model = js ''gpt-4o'', system = FinalPrompt (length batches) now,
                         user = join batchSeparator batchResults\<rparr> 5 w1 of
                   (Inl err, w2) \<Rightarrow> (errorReply err, w2)
                 | (Inr finalContent, w2) \<Rightarrow>
                     (finish parse stringify now finalContent nchunks nchunks, w2)))
      else if length chunkResults = 1 then
        (finish parse stringify now (chunkResults ! 0) 1 nchunks, w)
      else (ErrorReply 400 (js ''No chunks could be processed''), w))"

subsection \<open>\<^verbatim>\<open>JSON.stringify\<close>\<close>

text \<open>
  The compact serialization of a parsed value.  A number is written as it was read (the
  language would write the shortest text of the double).
\<close>

definition hexDigit :: "nat \<Rightarrow> jschar" where
  "hexDigit n = (if n < 10 then of_nat (48 + n) else of_nat (87 + n))"

definition escapeU :: "jschar \<Rightarrow> jsstring" where
  "escapeU c =
     [0x5C, 0x75, hexDigit (unat c div 4096), hexDigit (unat c div 256 mod 16),
      hexDigit (unat c div 16 mod 16), hexDigit (unat c mod 16)]"

definition quoteChar :: "jschar \<Rightarrow> jsstring" where
  "quoteChar c =
     (if c = 0x22 then [0x5C, 0x22]
      else if c = 0x5C then [0x5C, 0x5C]
      else if c = 0x08 then [0x5C, 0x62]
      else if c = 0x0C then [0x5C, 0x66]
      else if c = 0x0A then [0x5C, 0x6E]
      else if c = 0x0D then [0x5C, 0x72]
      else if c = 0x09 then [0x5C, 0x74]
      else if c < 0x20 then escapeU c
      else [c])"

definition isHighSurrogate :: "jschar \<Rightarrow> bool" where
  "isHighSurrogate c \<longleftrightarrow> 0xD800 \<le> c \<and> c \<le> 0xDBFF"

definition isLowSurrogate :: "jschar \<Rightarrow> bool" where
  "isLowSurrogate c \<longleftrightarrow> 0xDC00 \<le> c \<and> c \<le> 0xDFFF"

text \<open>A surrogate pair is written as it is, a lone surrogate as an escape.\<close>

fun quoteChars :: "jsstring \<Rightarrow> jsstring" where
  "quoteChars [] = []"
| "quoteChars [c] =
     (if isHighSurrogate c \<or> isLowSurrogate c then escapeU c else quoteChar c)"
| "quoteChars (c # d # s) =
     (if isHighSurrogate c \<and> isLowSurrogate d then c # d # quoteChars s
      else if isHighSurrogate c \<or> isLowSurrogate c then escapeU c @ quoteChars (d # s)
      else quoteChar c @ quoteChars (d # s))"

definition quoteString :: "jsstring \<Rightarrow> jsstring" where
  "quoteString s = [0x22] @ quoteChars s @ [0x22]"

fun JSON_stringify :: "json \<Rightarrow> jsstring" where
  "JSON_stringify JNull = js ''null''"
| "JSON_stringify (JBool b) = (if b then js ''true'' else js ''false'')"
| "JSON_stringify (JNumber n) = n"
| "JSON_stringify (JString s) = quoteString s"
| "JSON_stringify (JArray vs) = [0x5B] @ join [0x2C] (map JSON_stringify vs) @ [0x5D]"
| "JSON_stringify (JObject ps) =
     [0x7B] @ join [0x2C] (map (\<lambda>(k, v). quoteString k @ [0x3A] @ JSON_stringify v) ps) @ [0x7D]"

subsection \<open>The six categories\<close>

text \<open>
  The property the specification asks of a report: \<open>strideCategories\<close> is an array of
  exactly six objects, whose titles name, in this order, Spoofing, Tampering, Repudiation,
  Information Disclosure, Denial of Service and Elevation of Privilege, each with an array
  \<open>risks\<close>.
\<close>

definition strideTitles :: "jsstring list" where
  "strideTitles =
     [js ''Spoofing'', js ''Tampering'', js ''Repudiation'', js ''Information Disclosure'',
      js ''Denial of Service'', js ''Elevation of Privilege'']"

definition isCategory :: "jsstring \<Rightarrow> json \<Rightarrow> bool" where
  "isCategory name v =
     (case v of
        JObject ps \<Rightarrow>
          (case obj_get ps (js ''title'') of
             Some (JString t) \<Rightarrow> includes_js t name
           | _ \<Rightarrow> False) \<and>
          (case obj_get ps (js ''risks'') of
             Some (JArray rs) \<Rightarrow> True
           | _ \<Rightarrow> False)
      | _ \<Rightarrow> False)"

definition hasSixStrideCategories :: "json \<Rightarrow> bool" where
  "hasSixStrideCategories v =
     (case v of
        JObject ps \<Rightarrow>
          (case obj_get ps (js ''strideCategories'') of
             Some (JArray cs) \<Rightarrow>
               length cs = 6 \<and> list_all2 isCategory strideTitles cs
           | _ \<Rightarrow> False)
      | _ \<Rightarrow> False)"

section \<open>Segmenter: \<^verbatim>\<open>componentBasedChunking\<close>\<close>

record chunk =
  type :: jsstring
  content :: jsstring

text \<open>\<^verbatim>\<open>/Component:|Shape:|Entity:|Service:|Database:|API:|Server:|Client:|Interface:/gi\<close>\<close>

definition componentsPattern :: re where
  "componentsPattern =
     alts (map lit_i [''Component:'', ''Shape:'', ''Entity:'', ''Service:'', ''Database:'',
                      ''API:'', ''Server:'', ''Client:'', ''Interface:''])"

text \<open>\<^verbatim>\<open>/Label:|Description:|Metadata:|Properties:|Attributes:|Tag:|Info:/gi\<close>\<close>

definition metadataPattern :: re where
  "metadataPattern =
     alts (map lit_i [''Label:'', ''Description:'', ''Metadata:'', ''Properties:'',
                      ''Attributes:'', ''Tag:'', ''Info:''])"

text \<open>\<^verbatim>\<open>/Connection:|Flow:|Relationship:|Link:|Arrow:|Data Flow:|Connects to:|Interacts with:|Sends data to:|Receives data from:/gi\<close>\<close>

definition connectionsPattern :: re where
  "connectionsPattern =
     alts (map lit_i [''Connection:'', ''Flow:'', ''Relationship:'', ''Link:'', ''Arrow:'',
                      ''Data Flow:'', ''Connects to:'', ''Interacts with:'',
                      ''Sends data to:'', ''Receives data from:''])"

text \<open>\<^verbatim>\<open>/\n\n+/\<close>\<close>

definition paragraphPattern :: re where
  "paragraphPattern = Seq (chr 0x0A) (Plus (chr 0x0A))"

definition paragraphs :: "jsstring \<Rightarrow> jsstring list" where
  "paragraphs text = split_js paragraphPattern text"

text \<open>
  The state of the \<^verbatim>\<open>forEach\<close> over the paragraphs: the three lists, and the
  \<^verbatim>\<open>lastIndex\<close> of each of the three patterns, which carry the \<^verbatim>\<open>g\<close> flag and so
  remember where their last successful \<^verbatim>\<open>test\<close> ended.
\<close>

record segstate =
  componentsLastIndex :: nat
  connectionsLastIndex :: nat
  metadataLastIndex :: nat
  componentChunks :: "chunk list"
  metadataChunks :: "chunk list"
  connectionChunks :: "chunk list"

definition component :: "jsstring \<Rightarrow> chunk" where
  "component paragraph = \<lparr>type = js ''component'', content = trim paragraph\<rparr>"

definition connection :: "jsstring \<Rightarrow> chunk" where
  "connection paragraph = \<lparr>type = js ''connection'', content = trim paragraph\<rparr>"

definition metadata :: "jsstring \<Rightarrow> chunk" where
  "metadata paragraph = \<lparr>type = js ''metadata'', content = trim paragraph\<rparr>"

definition classify :: "segstate \<Rightarrow> jsstring \<Rightarrow> segstate" where
  "classify st paragraph =
     (case test_g componentsPattern (componentsLastIndex st) paragraph of
        (True, i1) \<Rightarrow>
          st\<lparr>componentsLastIndex := i1,
             componentChunks := componentChunks st @ [component paragraph]\<rparr>
      | (False, i1) \<Rightarrow>
          (case test_g connectionsPattern (connectionsLastIndex st) paragraph of
             (True, i2) \<Rightarrow>
               st\<lparr>componentsLastIndex := i1, connectionsLastIndex := i2,
                  connectionChunks := connectionChunks st @ [connection paragraph]\<rparr>
           | (False, i2) \<Rightarrow>
               (case test_g metadataPattern (metadataLastIndex st) paragraph of
                  (True, i3) \<Rightarrow>
                    st\<lparr>componentsLastIndex := i1, connectionsLastIndex := i2,
                       metadataLastIndex := i3,
                       metadataChunks := metadataChunks st @ [metadata paragraph]\<rparr>
                | (False, i3) \<Rightarrow>
                    (let st' = st\<lparr>componentsLastIndex := i1, connectionsLastIndex := i2,
                                   metadataLastIndex := i3\<rparr>
                     in if includes_js paragraph (js ''->'') \<or> includes_js paragraph [0x2194] \<or>
                           includes_js paragraph (js ''connects'') \<or>
                           includes_js paragraph (js ''flow'')
                        then st'\<lparr>connectionChunks := connectionChunks st @ [connection paragraph]\<rparr>
                        else if length paragraph < 200 \<and>
                                (includes_js paragraph (js '':'') \<or> includes_js paragraph (js ''=''))
                        then st'\<lparr>metadataChunks := metadataChunks st @ [metadata paragraph]\<rparr>
                        else st'\<lparr>componentChunks := componentChunks st @ [component paragraph]\<rparr>))))"

definition initial :: segstate where
  "initial = \<lparr>componentsLastIndex = 0, connectionsLastIndex = 0, metadataLastIndex = 0,
              componentChunks = [], metadataChunks = [], connectionChunks = []\<rparr>"

definition classifyAll :: "jsstring \<Rightarrow> segstate" where
  "classifyAll text = foldl classify initial (paragraphs text)"

text \<open>The optional quote \<^verbatim>\<open>["']?\<close> and the name \<^verbatim>\<open>([^"'\n,]+)\<close>.\<close>

definition optQuote :: re where
  "optQuote = Opt (Chr (\<lambda>x. x = 0x22 \<or> x = 0x27))"

definition nameGroup :: re where
  "nameGroup = Grp 1 (Plus (Chr (\<lambda>x. x \<noteq> 0x22 \<and> x \<noteq> 0x27 \<and> x \<noteq> 0x0A \<and> x \<noteq> 0x2C)))"

text \<open>\<^verbatim>\<open>/from\s+["']?([^"'\n,]+)["']?/i\<close> and
  \<^verbatim>\<open>/source\s*[:=]\s*["']?([^"'\n,]+)["']?/i\<close>\<close>

definition fromPattern :: re where
  "fromPattern = seqs [lit_i ''from'', Plus sp, optQuote, nameGroup, optQuote]"

definition sourcePattern :: re where
  "sourcePattern =
     seqs [lit_i ''source'', Star sp, oneOf '':='', Star sp, optQuote, nameGroup, optQuote]"

text \<open>\<^verbatim>\<open>/to\s+["']?([^"'\n,]+)["']?/i\<close> and
  \<^verbatim>\<open>/target\s*[:=]\s*["']?([^"'\n,]+)["']?/i\<close>\<close>

definition toPattern :: re where
  "toPattern = seqs [lit_i ''to'', Plus sp, optQuote, nameGroup, optQuote]"

definition targetPattern :: re where
  "targetPattern =
     seqs [lit_i ''target'', Star sp, oneOf '':='', Star sp, optQuote, nameGroup, optQuote]"

text \<open>\<^verbatim>\<open>s.match(p) || s.match(q)\<close>\<close>

definition matchEither :: "re \<Rightarrow> re \<Rightarrow> jsstring \<Rightarrow> caps option" where
  "matchEither p q s = (case match_js p s of Some c \<Rightarrow> Some c | None \<Rightarrow> match_js q s)"

text \<open>
  \<open>groupedConnections\<close> is a plain object used as a dictionary: its own properties in the
  order of their creation (every key holds an underscore, so none is an array index), and
  behind them the properties every object inherits from \<^verbatim>\<open>Object.prototype\<close>.  Reading
  an inherited key gives a value that is truthy and has no \<^verbatim>\<open>push\<close>, so the call of
  line 157 throws a \<^verbatim>\<open>TypeError\<close>.
\<close>

definition objectPrototypeKeys :: "jsstring list" where
  "objectPrototypeKeys =
     map js [''constructor'', ''__defineGetter__'', ''__defineSetter__'', ''hasOwnProperty'',
             ''__lookupGetter__'', ''__lookupSetter__'', ''isPrototypeOf'',
             ''propertyIsEnumerable'', ''toString'', ''valueOf'', ''__proto__'',
             ''toLocaleString'']"

definition pushTypeError :: jsstring where
  "pushTypeError = js ''groupedConnections[key].push is not a function''"

definition setKey :: "(jsstring \<times> chunk list) list \<Rightarrow> jsstring \<Rightarrow> chunk list \<Rightarrow> (jsstring \<times> chunk list) list" where
  "setKey g key v =
     (if key \<in> set (map fst g) then map (\<lambda>(k, old). if k = key then (k, v) else (k, old)) g
      else g @ [(key, v)])"

definition groupStep ::
  "(jsstring \<times> chunk list) list \<Rightarrow> chunk \<Rightarrow> jsstring + (jsstring \<times> chunk list) list" where
  "groupStep groupedConnections conn =
     (case (matchEither fromPattern sourcePattern (content conn),
            matchEither toPattern targetPattern (content conn)) of
        (Some sourceMatch, Some targetMatch) \<Rightarrow>
          (let key = cap sourceMatch 1 @ js ''_'' @ cap targetMatch 1
           in case map_of groupedConnections key of
                Some grp \<Rightarrow> Inr (setKey groupedConnections key (grp @ [conn]))
              | None \<Rightarrow>
                  if key \<in> set objectPrototypeKeys then Inl pushTypeError
                  else Inr (setKey groupedConnections key [conn]))
      | _ \<Rightarrow>
          (let key = js ''conn_'' @ showNat (length groupedConnections)
           in Inr (setKey groupedConnections key [conn])))"

fun groupAll ::
  "(jsstring \<times> chunk list) list \<Rightarrow> chunk list \<Rightarrow> jsstring + (jsstring \<times> chunk list) list" where
  "groupAll g [] = Inr g"
| "groupAll g (conn # conns) =
     (case groupStep g conn of Inl err \<Rightarrow> Inl err | Inr g' \<Rightarrow> groupAll g' conns)"

definition connectionGroup :: "chunk list \<Rightarrow> chunk" where
  "connectionGroup grp =
     \<lparr>type = js ''connection_group'',
      content = join (js ''\<newline>\<newline>'') (map content grp)\<rparr>"

text \<open>\<open>allChunks\<close> of line 166, or the error thrown on the way to it.\<close>

definition allChunks :: "jsstring \<Rightarrow> jsstring + chunk list" where
  "allChunks text =
     (let st = classifyAll text
      in case groupAll [] (connectionChunks st) of
           Inl err \<Rightarrow> Inl err
         | Inr groupedConnections \<Rightarrow>
             Inr (componentChunks st @ metadataChunks st @
                  map (\<lambda>(key, grp). connectionGroup grp) groupedConnections))"

definition keep :: "chunk \<Rightarrow> bool" where
  "keep chunk \<longleftrightarrow> content chunk \<noteq> [] \<and> length (trim (content chunk)) > 10"

definition render :: "chunk \<Rightarrow> jsstring" where
  "render chunk = js ''['' @ toUpperCase (type chunk) @ js '']\<newline>'' @ content chunk"

text \<open>The body of the \<^verbatim>\<open>try\<close>: the segments, or the error that sends the function to its
  \<^verbatim>\<open>catch\<close>.\<close>

definition structuralPass :: "jsstring \<Rightarrow> jsstring + jsstring list" where
  "structuralPass text =
     (case allChunks text of
        Inl err \<Rightarrow> Inl err
      | Inr chunks \<Rightarrow> Inr (map render (filter keep chunks)))"

text \<open>
  \<open>chunkWithSlidingWindow\<close>, called with its default sizes.  \<open>splitter\<close> stands for the
  \<^verbatim>\<open>RecursiveCharacterTextSplitter\<close> of the LangChain library with those sizes: the chunks
  it returns, or nothing when it throws, in which case the text is cut every 8000 code
  units.
\<close>

definition chunkSize :: nat where
  "chunkSize = 8000"

function basicChunks :: "nat \<Rightarrow> jsstring \<Rightarrow> jsstring list" where
  "basicChunks i text =
     (if i < length text then slice text i (i + chunkSize) # basicChunks (i + chunkSize) text
      else [])"
  by pat_completeness auto
termination
  by (relation "measure (\<lambda>(i, text). length text - i)") (auto simp: chunkSize_def)

declare basicChunks.simps [simp del]

definition chunkWithSlidingWindow :: "(jsstring \<Rightarrow> jsstring list option) \<Rightarrow> jsstring \<Rightarrow> jsstring list" where
  "chunkWithSlidingWindow splitter text =
     (case splitter text of Some chunks \<Rightarrow> chunks | None \<Rightarrow> basicChunks 0 text)"

definition componentBasedChunking :: "(jsstring \<Rightarrow> jsstring list option) \<Rightarrow> jsstring \<Rightarrow> jsstring list" where
  "componentBasedChunking splitter text =
     (case structuralPass text of
        Inr segments \<Rightarrow> segments
      | Inl err \<Rightarrow> chunkWithSlidingWindow splitter text)"

section \<open>Conditions and invariants\<close>

text \<open>Every invocation of the client answers, at once or after retries.\<close>

definition answers :: "(payload, jsstring) env \<Rightarrow> bool" where
  "answers e \<longleftrightarrow> (\<forall>q w. \<exists>r. fst (callOpenAIWithRetry e q 5 w) = Inr r)"

text \<open>What the loop over the paragraphs keeps true of its three lists.\<close>

definition classified :: "jsstring set \<Rightarrow> segstate \<Rightarrow> bool" where
  "classified P st \<longleftrightarrow>
     (\<forall>c \<in> set (componentChunks st). type c = js ''component'' \<and> content c \<in> trim ` P) \<and>
     (\<forall>c \<in> set (metadataChunks st). type c = js ''metadata'' \<and> content c \<in> trim ` P) \<and>
     (\<forall>c \<in> set (connectionChunks st). content c \<in> trim ` P)"


section \<open>Concrete inputs\<close>

definition w0 :: "unit world" where
  "w0 = \<lparr>attempts = 0, draws = 0, sleeps = [], calls = []\<rparr>"

definition hinted429 :: err_response where
  "hinted429 = \<lparr>status = 429,
      error_message = Some (js ''Rate limit reached. Please try again in 1.25s.''),
      data = js ''{}''\<rparr>"


definition fault500 :: err_response where
  "fault500 = \<lparr>status = 500, error_message = Some (js ''The server had an error''),
      data = js ''{}''\<rparr>"

definition busyEnv :: "(unit, unit) env" where
  "busyEnv = \<lparr>service = (\<lambda>n q. Inl (Thrown (js ''Request failed with status code 429'') (Some hinted429))),
               random = (\<lambda>n. 1 / 2)\<rparr>"


definition faultyEnv :: "(unit, unit) env" where
  "faultyEnv = \<lparr>service = (\<lambda>n q. if n = 0
                   then Inl (Thrown (js ''Request failed with status code 429'') (Some hinted429))
                   else Inl (Thrown (js ''Request failed with status code 500'') (Some fault500))),
               random = (\<lambda>n. 1 / 2)\<rparr>"

definition whole429 :: err_response where
  "whole429 = \<lparr>status = 429,
      error_message = Some (js ''Rate limit reached. Please try again in 45s.''),
      data = js ''{}''\<rparr>"

definition clock0 :: jsstring where
  "clock0 = js ''2025-01-01T00:00:00.000Z''"

definition emptyReport :: jsstring where
  "emptyReport = js ''{\"summary\": \"nothing found\", \"strideCategories\": []}''"

definition garbage :: jsstring where
  "garbage = js ''I cannot analyse this diagram.''"

definition agreeableEnv :: "(payload, jsstring) env" where
  "agreeableEnv = \<lparr>service = (\<lambda>n q. Inr emptyReport), random = (\<lambda>n. 1 / 2)\<rparr>"

definition pw0 :: "payload world" where
  "pw0 = \<lparr>attempts = 0, draws = 0, sleeps = [], calls = []\<rparr>"

definition parsedEmptyReport :: json where
  "parsedEmptyReport =
     JObject [(js ''summary'', JString (js ''nothing found'')),
              (js ''strideCategories'', JArray [])]"

definition sixReport :: jsstring where
  "sixReport = js (''{\"summary\": \"ok\", \"strideCategories\": ['' @
     ''{\"title\": \"Spoofing Threats\", \"risks\": []}, '' @
     ''{\"title\": \"Tampering Threats\", \"risks\": []}, '' @
     ''{\"title\": \"Repudiation Threats\", \"risks\": []}, '' @
     ''{\"title\": \"Information Disclosure Threats\", \"risks\": []}, '' @
     ''{\"title\": \"Denial of Service Threats\", \"risks\": []}, '' @
     ''{\"title\": \"Elevation of Privilege Threats\", \"risks\": []}]}'')"

definition category :: "string \<Rightarrow> json" where
  "category t = JObject [(js ''title'', JString (js t)), (js ''risks'', JArray [])]"

definition parsedSixReport :: json where
  "parsedSixReport =
     JObject [(js ''summary'', JString (js ''ok'')),
              (js ''strideCategories'',
               JArray [category ''Spoofing Threats'', category ''Tampering Threats'',
                       category ''Repudiation Threats'',
                       category ''Information Disclosure Threats'',
                       category ''Denial of Service Threats'',
                       category ''Elevation of Privilege Threats''])]"

text \<open>A splitter that answers with the whole text as one chunk, as the library does for a
  short text.\<close>

definition wholeText :: "jsstring \<Rightarrow> jsstring list option" where
  "wholeText text = Some [text]"

definition diagram :: jsstring where
  "diagram = js (''Component: Web server\<newline>\<newline>'' @
                 ''Label: production\<newline>\<newline>'' @
                 ''Data Flow: from \"web\" to \"db\", SQL\<newline>\<newline>'' @
                 ''from \"web\" to \"db\" -> backups'')"


definition tenChars :: jsstring where
  "tenChars = js ''Server: db''"

definition elevenChars :: jsstring where
  "elevenChars = js ''Server: dbs''"

definition protoText :: jsstring where
  "protoText = js ''Flow: from _, to proto__''"

definition collidingText :: jsstring where
  "collidingText = js ''Flow: from conn, to 1\<newline>\<newline>a->b''"

text \<open>A splitter that throws.\<close>

definition brokenSplitter :: "jsstring \<Rightarrow> jsstring list option" where
  "brokenSplitter text = None"

section \<open>Properties\<close>

subsection \<open>The Remote Call Client\<close>

lemma retryLoop_rate_limited:
  assumes "retries \<le> maxRetries" and "service e (attempts w) dat = Inl err"
    and "response err = Some r" and "status r = 429"
  shows "retryLoop e dat maxRetries retries w =
         retryLoop e dat maxRetries (Suc retries)
           (w\<lparr>attempts := Suc (attempts w), draws := Suc (draws w),
              sleeps := sleeps w @ [waitTime r + real retries * 5000 + random e (draws w) * 1000]\<rparr>)"
  using assms by (subst retryLoop.simps) (simp add: Let_def)

lemma retryLoop_other:
  assumes "retries \<le> maxRetries" and "service e (attempts w) dat = Inl err"
    and "\<not> rateLimited err"
  shows "retryLoop e dat maxRetries retries w = (Inl err, w\<lparr>attempts := Suc (attempts w)\<rparr>)"
  using assms by (subst retryLoop.simps) (simp add: rateLimited_def split: option.splits)

lemma retryLoop_exhausted:
  "maxRetries < retries \<Longrightarrow> retryLoop e dat maxRetries retries w = (Inl (exhausted maxRetries), w)"
  by (subst retryLoop.simps) simp

lemma retryLoop_all_rate_limited:
  assumes "\<forall>n. \<exists>err. service e n dat = Inl err \<and> rateLimited err"
  shows "retries \<le> Suc maxRetries \<Longrightarrow>
         fst (retryLoop e dat maxRetries retries w) = Inl (exhausted maxRetries) \<and>
         attempts (snd (retryLoop e dat maxRetries retries w)) = attempts w + (Suc maxRetries - retries) \<and>
         length (sleeps (snd (retryLoop e dat maxRetries retries w))) = length (sleeps w) + (Suc maxRetries - retries)"
proof (induction "Suc maxRetries - retries" arbitrary: retries w)
  case 0
  then have "maxRetries < retries" by simp
  then show ?case by (simp add: retryLoop_exhausted)
next
  case (Suc d)
  then have le: "retries \<le> maxRetries" by simp
  from assms obtain err where err: "service e (attempts w) dat = Inl err" "rateLimited err"
    by blast
  then obtain r where r: "response err = Some r" "status r = 429"
    by (auto simp: rateLimited_def split: option.splits)
  let ?w = "w\<lparr>attempts := Suc (attempts w), draws := Suc (draws w),
              sleeps := sleeps w @ [waitTime r + real retries * 5000 + random e (draws w) * 1000]\<rparr>"
  have step: "retryLoop e dat maxRetries retries w = retryLoop e dat maxRetries (Suc retries) ?w"
    using le err(1) r by (rule retryLoop_rate_limited)
  have d: "d = Suc maxRetries - Suc retries" using Suc.hyps(2) by simp
  have "Suc retries \<le> Suc maxRetries" using le by simp
  from Suc.hyps(1) [OF d this, of ?w]
  have "fst (retryLoop e dat maxRetries (Suc retries) ?w) = Inl (exhausted maxRetries)"
    and "attempts (snd (retryLoop e dat maxRetries (Suc retries) ?w)) =
         attempts ?w + (Suc maxRetries - Suc retries)"
    and "length (sleeps (snd (retryLoop e dat maxRetries (Suc retries) ?w))) =
         length (sleeps ?w) + (Suc maxRetries - Suc retries)"
    by blast+
  moreover have "attempts ?w + (Suc maxRetries - Suc retries) = attempts w + (Suc maxRetries - retries)"
    using le by simp
  moreover have "length (sleeps ?w) + (Suc maxRetries - Suc retries) =
                 length (sleeps w) + (Suc maxRetries - retries)"
    using le by simp
  ultimately show ?case unfolding step by presburger
qed

text \<open>
  Claim C4.  If every request issued for the payload is rejected with a rate-limit error,
  \<open>callOpenAIWithRetry\<close> gives up after exactly \<open>maxRetries + 1\<close> requests (each of them
  rejected and followed by a sleep) and throws the error
  \<^verbatim>\<open>Failed after <maxRetries> retries\<close>, which carries no response.
\<close>

theorem exhausted_after_maxRetries_plus_one_attempts:
  assumes "\<forall>n. \<exists>err. service e n dat = Inl err \<and> rateLimited err"
  shows "fst (callOpenAIWithRetry e dat maxRetries w) = Inl (exhausted maxRetries) \<and>
         attempts (snd (callOpenAIWithRetry e dat maxRetries w)) = attempts w + (maxRetries + 1) \<and>
         length (sleeps (snd (callOpenAIWithRetry e dat maxRetries w))) = length (sleeps w) + (maxRetries + 1) \<and>
         message (exhausted maxRetries) = js ''Failed after '' @ showNat maxRetries @ js '' retries'' \<and>
         response (exhausted maxRetries) = None"
  using retryLoop_all_rate_limited [OF assms, of 0 maxRetries "w\<lparr>calls := calls w @ [dat]\<rparr>"]
  by (simp add: callOpenAIWithRetry_def exhausted_def)

lemma retryLoop_fails_at:
  assumes "\<forall>i<k. \<exists>err'. service e (attempts w + i) dat = Inl err' \<and> rateLimited err'"
    and "service e (attempts w + k) dat = Inl err" and "\<not> rateLimited err"
    and "retries + k \<le> maxRetries"
  shows "fst (retryLoop e dat maxRetries retries w) = Inl err \<and>
         attempts (snd (retryLoop e dat maxRetries retries w)) = attempts w + k + 1 \<and>
         length (sleeps (snd (retryLoop e dat maxRetries retries w))) = length (sleeps w) + k"
  using assms
proof (induction k arbitrary: retries w)
  case 0
  then show ?case by (simp add: retryLoop_other)
next
  case (Suc k)
  from Suc.prems(1) obtain err' where err': "service e (attempts w) dat = Inl err'" "rateLimited err'"
    by force
  then obtain r where r: "response err' = Some r" "status r = 429"
    by (auto simp: rateLimited_def split: option.splits)
  let ?w = "w\<lparr>attempts := Suc (attempts w), draws := Suc (draws w),
              sleeps := sleeps w @ [waitTime r + real retries * 5000 + random e (draws w) * 1000]\<rparr>"
  have le: "retries \<le> maxRetries" using Suc.prems(4) by simp
  have step: "retryLoop e dat maxRetries retries w = retryLoop e dat maxRetries (Suc retries) ?w"
    using le err'(1) r by (rule retryLoop_rate_limited)
  have a: "\<forall>i<k. \<exists>err'. service e (attempts ?w + i) dat = Inl err' \<and> rateLimited err'"
  proof (intro allI impI)
    fix i assume "i < k"
    then have "Suc i < Suc k" by simp
    with Suc.prems(1) have "\<exists>err'. service e (attempts w + Suc i) dat = Inl err' \<and> rateLimited err'"
      by blast
    then show "\<exists>err'. service e (attempts ?w + i) dat = Inl err' \<and> rateLimited err'" by simp
  qed
  have b: "service e (attempts ?w + k) dat = Inl err" using Suc.prems(2) by simp
  have c: "Suc retries + k \<le> maxRetries" using Suc.prems(4) by simp
  from Suc.IH [OF a b Suc.prems(3) c] show ?case unfolding step by simp
qed

text \<open>
  Claim C8.  An error that is not a rate-limit rejection ends the call at once: whether it
  meets the first request or a request made after \<open>k\<close> rate-limit rejections, the very
  error object is thrown to the caller, and no request and no sleep follow it.
\<close>

theorem other_error_thrown_without_retry:
  assumes "\<forall>i<k. \<exists>err'. service e (attempts w + i) dat = Inl err' \<and> rateLimited err'"
    and "service e (attempts w + k) dat = Inl err" and "\<not> rateLimited err"
    and "k \<le> maxRetries"
  shows "fst (callOpenAIWithRetry e dat maxRetries w) = Inl err \<and>
         attempts (snd (callOpenAIWithRetry e dat maxRetries w)) = attempts w + k + 1 \<and>
         length (sleeps (snd (callOpenAIWithRetry e dat maxRetries w))) = length (sleeps w) + k"
proof -
  let ?w = "w\<lparr>calls := calls w @ [dat]\<rparr>"
  have a: "\<forall>i<k. \<exists>err'. service e (attempts ?w + i) dat = Inl err' \<and> rateLimited err'"
    using assms(1) by simp
  have b: "service e (attempts ?w + k) dat = Inl err" using assms(2) by simp
  have c: "0 + k \<le> maxRetries" using assms(4) by simp
  from retryLoop_fails_at [OF a b assms(3) c] show ?thesis
    by (simp add: callOpenAIWithRetry_def)
qed




theorem exhausted_witness:
  "(\<forall>n. \<exists>err. service busyEnv n () = Inl err \<and> rateLimited err) \<and>
   fst (callOpenAIWithRetry busyEnv () 5 w0) = Inl (exhausted 5) \<and>
   attempts (snd (callOpenAIWithRetry busyEnv () 5 w0)) = 6"
proof -
  have h: "\<forall>n. \<exists>err. service busyEnv n () = Inl err \<and> rateLimited err"
    by (simp add: busyEnv_def rateLimited_def hinted429_def)
  show ?thesis
    using h exhausted_after_maxRetries_plus_one_attempts [OF h, of 5 w0]
    by (simp add: w0_def)
qed

theorem other_error_witness:
  "service faultyEnv 1 () = Inl (Thrown (js ''Request failed with status code 500'') (Some fault500)) \<and>
   \<not> rateLimited (Thrown (js ''Request failed with status code 500'') (Some fault500)) \<and>
   fst (callOpenAIWithRetry faultyEnv () 5 w0) =
     Inl (Thrown (js ''Request failed with status code 500'') (Some fault500)) \<and>
   attempts (snd (callOpenAIWithRetry faultyEnv () 5 w0)) = 2 \<and>
   length (sleeps (snd (callOpenAIWithRetry faultyEnv () 5 w0))) = 1"
proof -
  let ?err = "Thrown (js ''Request failed with status code 500'') (Some fault500)"
  have a: "\<forall>i<1. \<exists>err'. service faultyEnv (attempts w0 + i) () = Inl err' \<and> rateLimited err'"
    by (simp add: faultyEnv_def w0_def rateLimited_def hinted429_def)
  have b: "service faultyEnv (attempts w0 + 1) () = Inl ?err"
    by (simp add: faultyEnv_def w0_def)
  have c: "\<not> rateLimited ?err"
    by (simp add: rateLimited_def fault500_def)
  have d: "(1::nat) \<le> 5" by simp
  show ?thesis
    using b c other_error_thrown_without_retry [OF a b c d]
    by (simp add: w0_def)
qed



text \<open>A hint without a decimal point is not recognised: the wait falls back to the
  default of 30 s, below the 45 s the server asked for.\<close>

lemma whole_seconds_hint_ignored:
  "hintSeconds whole429 = None \<and> waitTime whole429 = 30000"
proof -
  have "hintSeconds whole429 = None"
    unfolding whole429_def by code_simp
  then show ?thesis by (simp add: waitTime_def)
qed

subsection \<open>The Output Recovery Parser\<close>

text \<open>
  Claim C9.  A text that \<^verbatim>\<open>JSON.parse\<close> accepts is returned as its parse, the very value,
  with no repair applied.
\<close>

theorem valid_json_returned_unchanged:
  "parse jsonString = Inr v \<Longrightarrow> cleanAndFixJSON parse now jsonString = v"
  by (simp add: cleanAndFixJSON_def)

text \<open>
  Claim C3.  \<open>cleanAndFixJSON\<close> has a value for every string (no step of it can throw on
  a string), and when the text, its cleaned form and its aggressively fixed form all fail
  to parse, that value is the record of four fields: the error marker, the message of
  the last failure, the timestamp and the note.
\<close>

theorem degraded_record_when_all_repairs_fail:
  assumes "parse jsonString = Inl e1"
    and "parse (basicCleanup jsonString) = Inl e2"
    and "parse (aggressiveFix (basicCleanup jsonString)) = Inl e3"
  shows "cleanAndFixJSON parse now jsonString =
         JObject [(js ''error'', JString (js ''JSON parsing failed'')),
                  (js ''errorMessage'', JString e3),
                  (js ''timestamp'', JString now),
                  (js ''summary'',
                   JString (js ''Error in analysis output format. Please check server logs.''))]"
  using assms by (simp add: cleanAndFixJSON_def degraded_def)

lemma cleanAndFixJSON_cases:
  "(\<exists>msg. cleanAndFixJSON parse now s = degraded msg now) \<or>
   parse s = Inr (cleanAndFixJSON parse now s) \<or>
   parse (basicCleanup s) = Inr (cleanAndFixJSON parse now s) \<or>
   parse (aggressiveFix (basicCleanup s)) = Inr (cleanAndFixJSON parse now s)"
  by (auto simp: cleanAndFixJSON_def Let_def split: sum.splits)

lemma isArrayIndex_timestamp: "\<not> isArrayIndex (js ''timestamp'')"
  by (simp add: isArrayIndex_def js_def isDigit_def)

lemma map_of_replace_other:
  "k' \<noteq> k \<Longrightarrow> map_of (map (\<lambda>(a, b). if a = k then (k, v) else (a, b)) ps) k' = map_of ps k'"
  by (induction ps) auto

lemma obj_get_put_timestamp:
  "k' \<noteq> js ''timestamp'' \<Longrightarrow> obj_get (obj_put ps (js ''timestamp'') v) k' = obj_get ps k'"
  by (auto simp: obj_get_def obj_put_def isArrayIndex_timestamp map_of_replace_other
      map_add_def split: option.splits)

lemma strideCategories_not_timestamp: "js ''strideCategories'' \<noteq> js ''timestamp''"
  by (simp add: js_def)

lemma addTimestamp_keeps_categories:
  "addTimestamp now v = Inr v' \<Longrightarrow> hasSixStrideCategories v' = hasSixStrideCategories v"
proof (cases v)
  case (JObject ps)
  assume a: "addTimestamp now v = Inr v'"
  have "obj_get (obj_put ps (js ''timestamp'') (JString now)) (js ''strideCategories'') =
        obj_get ps (js ''strideCategories'')"
    by (rule obj_get_put_timestamp) (rule strideCategories_not_timestamp)
  with a JObject show ?thesis
    by (auto simp: hasSixStrideCategories_def split: option.splits if_splits)
qed auto

text \<open>
  Claim C7, as amended.  Neither the parser nor the reducer checks or supplies
  \<open>strideCategories\<close>.  What \<open>cleanAndFixJSON\<close> returns is the degraded record or the very
  value that \<^verbatim>\<open>JSON.parse\<close> gives for the text, for its cleaned form or for its aggressively
  fixed form; the timestamp the reducer adds leaves the categories as they are.  So a
  report has the six categories exactly when the text of the remote service has them.
\<close>

theorem report_is_what_the_text_parses_to:
  "((\<exists>msg. cleanAndFixJSON parse now s = degraded msg now) \<or>
    parse s = Inr (cleanAndFixJSON parse now s) \<or>
    parse (basicCleanup s) = Inr (cleanAndFixJSON parse now s) \<or>
    parse (aggressiveFix (basicCleanup s)) = Inr (cleanAndFixJSON parse now s)) \<and>
   (\<forall>v'. addTimestamp now (cleanAndFixJSON parse now s) = Inr v' \<longrightarrow>
      hasSixStrideCategories v' = hasSixStrideCategories (cleanAndFixJSON parse now s))"
  using cleanAndFixJSON_cases [of parse now s] addTimestamp_keeps_categories by blast

subsection \<open>The Batch Reducer\<close>

lemma callOpenAIWithRetry_success:
  "service e (attempts w) q = Inr r \<Longrightarrow>
   callOpenAIWithRetry e q m w = (Inr r, w\<lparr>attempts := Suc (attempts w), calls := calls w @ [q]\<rparr>)"
  unfolding callOpenAIWithRetry_def by (subst retryLoop.simps) simp

lemma next_batch_count:
  "i < n \<Longrightarrow> Suc ((n - (i + 10) + 9) div 10) = (n - i + 9) div (10::nat)"
proof (cases "n - i < 10")
  case True
  assume "i < n"
  with True have "n - (i + 10) = 0" "1 \<le> n - i" by simp_all
  with True show ?thesis by simp
next
  case False
  then have "n - i + 9 = (n - (i + 10) + 9) + 10" by simp
  then show ?thesis by (simp only: div_add_self2)
qed

lemma length_batchLoop: "length (batchLoop i xs) = (length xs - i + 9) div 10"
proof (induction i xs rule: batchLoop.induct)
  case (1 i xs)
  show ?case
  proof (cases "i < length xs")
    case True
    from "1.IH" [OF True] have "length (batchLoop i xs) = Suc ((length xs - (i + 10) + 9) div 10)"
      using True by (subst batchLoop.simps) (simp add: batchSize_def)
    also have "\<dots> = (length xs - i + 9) div 10" using True by (rule next_batch_count)
    finally show ?thesis .
  next
    case False
    then show ?thesis by (subst batchLoop.simps) simp
  qed
qed

lemma retryLoop_calls: "calls (snd (retryLoop e dat maxRetries retries w)) = calls w"
proof (induction e dat maxRetries retries w rule: retryLoop.induct)
  case (1 e dat maxRetries retries w)
  show ?case
  proof (cases "retries \<le> maxRetries")
    case False
    then show ?thesis by (subst retryLoop.simps) simp
  next
    case le: True
    show ?thesis
    proof (cases "service e (attempts w) dat")
      case (Inr resp)
      with le show ?thesis by (subst retryLoop.simps) simp
    next
      case (Inl err)
      show ?thesis
      proof (cases "rateLimited err")
        case False
        with le Inl show ?thesis
          by (subst retryLoop.simps) (simp add: rateLimited_def split: option.splits)
      next
        case True
        then obtain r where r: "response err = Some r" "status r = 429"
          by (auto simp: rateLimited_def split: option.splits)
        from "1.IH" [OF le Inl r refl refl] le Inl r show ?thesis
          by (subst retryLoop.simps) (simp add: Let_def)
      qed
    qed
  qed
qed

lemma callOpenAIWithRetry_calls:
  "calls (snd (callOpenAIWithRetry e q maxRetries w)) = calls w @ [q]"
  by (simp add: callOpenAIWithRetry_def retryLoop_calls)

lemma answers_if_service_succeeds:
  "\<forall>n q. \<exists>r. service e n q = Inr r \<Longrightarrow> answers e"
  unfolding answers_def
proof (intro allI)
  fix q :: payload and w :: "payload world"
  assume "\<forall>n q. \<exists>r. service e n q = Inr r"
  then obtain r where "service e (attempts w) q = Inr r" by blast
  then have "callOpenAIWithRetry e q 5 w =
             (Inr r, w\<lparr>attempts := Suc (attempts w), calls := calls w @ [q]\<rparr>)"
    by (rule callOpenAIWithRetry_success)
  then show "\<exists>r. fst (callOpenAIWithRetry e q 5 w) = Inr r" by simp
qed

lemma pause_calls: "calls (pause e w) = calls w"
  by (simp add: pause_def)

lemma processBatches_all_answered:
  assumes ok: "answers e"
  shows "d = length batches - i \<Longrightarrow> i \<le> length batches \<Longrightarrow>
         \<exists>brs w'. processBatches e parse stringify now batches i brs0 w = (Inr brs, w') \<and>
           length brs = length brs0 + (length batches - i) \<and>
           map system (calls w') =
             map system (calls w) @
             map (\<lambda>j. BatchPrompt (Suc j) (length batches) now) [i..<length batches]"
proof (induction d arbitrary: i brs0 w)
  case 0
  then have "\<not> i < length batches" by simp
  then show ?case using 0 by (subst processBatches.simps) simp
next
  case (Suc d)
  then have lt: "i < length batches" by simp
  let ?q = "\<lparr>model = js ''gpt-4o'', system = BatchPrompt (Suc i) (length batches) now,
             user = join chunkSeparator (batches ! i)\<rparr>"
  from ok obtain r where r: "fst (callOpenAIWithRetry e ?q 5 w) = Inr r"
    unfolding answers_def by blast
  then obtain w1 where call: "callOpenAIWithRetry e ?q 5 w = (Inr r, w1)"
    by (cases "callOpenAIWithRetry e ?q 5 w") simp
  have w1c: "calls w1 = calls w @ [?q]"
    using callOpenAIWithRetry_calls [of e ?q 5 w] call by simp
  let ?w2 = "if i < length batches - 1 then pause e w1 else w1"
  let ?brs1 = "brs0 @ [stringify (cleanAndFixJSON parse now r)]"
  have step: "processBatches e parse stringify now batches i brs0 w =
              processBatches e parse stringify now batches (Suc i) ?brs1 ?w2"
    using lt by (subst processBatches.simps) (simp add: call Let_def)
  have d: "d = length batches - Suc i" using Suc.prems(1) by simp
  have le: "Suc i \<le> length batches" using lt by simp
  from Suc.IH [OF d le, of ?brs1 ?w2] obtain brs w' where
    res: "processBatches e parse stringify now batches (Suc i) ?brs1 ?w2 = (Inr brs, w')" and
    len: "length brs = length ?brs1 + (length batches - Suc i)" and
    cls: "map system (calls w') =
            map system (calls ?w2) @
            map (\<lambda>j. BatchPrompt (Suc j) (length batches) now) [Suc i..<length batches]"
    by blast
  have "calls ?w2 = calls w @ [?q]"
    by (simp add: pause_calls w1c)
  then have w2c: "map system (calls ?w2) =
                  map system (calls w) @ [BatchPrompt (Suc i) (length batches) now]"
    by simp
  have upt: "[i..<length batches] = i # [Suc i..<length batches]"
    using lt by (simp add: upt_conv_Cons)
  have "length brs = length brs0 + (length batches - i)" using len lt by simp
  moreover have "map system (calls w') =
             map system (calls w) @
             map (\<lambda>j. BatchPrompt (Suc j) (length batches) now) [i..<length batches]"
    unfolding cls w2c upt by simp
  ultimately show ?case using step res by simp
qed

text \<open>
  Claim C2, as amended.  For more than one partial report, and as long as every
  invocation of the client answers, the reducer issues one call per batch of at most ten
  reports, that is \<open>\<lceil>len / 10\<rceil>\<close> batch-level calls, and after them always exactly one
  final consolidation call, also when there was only one batch.
\<close>

theorem batch_calls_then_one_final_call:
  assumes "answers e" and "1 < length chunkResults"
  shows "map system (calls (snd (reduceReports e parse stringify now chunkResults nchunks w))) =
           map system (calls w) @
           map (\<lambda>j. BatchPrompt (Suc j) ((length chunkResults + 9) div 10) now)
               [0..<(length chunkResults + 9) div 10] @
           [FinalPrompt ((length chunkResults + 9) div 10) now] \<and>
         (length chunkResults + 9) div 10 = nat \<lceil>real (length chunkResults) / 10\<rceil>"
proof -
  let ?batches = "batchLoop 0 chunkResults"
  let ?nb = "(length chunkResults + 9) div 10"
  have nb: "length ?batches = ?nb" by (simp add: length_batchLoop)
  from processBatches_all_answered [OF assms(1) refl, of 0 ?batches parse stringify now "[]" w]
  obtain brs w1 where
    res: "processBatches e parse stringify now ?batches 0 [] w = (Inr brs, w1)" and
    cls: "map system (calls w1) =
            map system (calls w) @
            map (\<lambda>j. BatchPrompt (Suc j) (length ?batches) now) [0..<length ?batches]"
    by auto
  let ?q = "\<lparr>model = js ''gpt-4o'', system = FinalPrompt (length ?batches) now,
             user = join batchSeparator brs\<rparr>"
  from assms(1) obtain r where r: "fst (callOpenAIWithRetry e ?q 5 w1) = Inr r"
    unfolding answers_def by blast
  then obtain w2 where call: "callOpenAIWithRetry e ?q 5 w1 = (Inr r, w2)"
    by (cases "callOpenAIWithRetry e ?q 5 w1") simp
  have red: "snd (reduceReports e parse stringify now chunkResults nchunks w) = w2"
    using assms(2) by (simp add: reduceReports_def Let_def res call)
  have "\<lceil>real_of_int (int (length chunkResults)) / real_of_int 10\<rceil> =
        - (- int (length chunkResults) div 10)"
    by (rule ceiling_divide_eq_div)
  then have "\<lceil>real (length chunkResults) / 10\<rceil> = - (- int (length chunkResults) div 10)"
    by simp
  then have ceil: "?nb = nat \<lceil>real (length chunkResults) / 10\<rceil>"
    by simp
  have "calls w2 = calls w1 @ [?q]"
    using callOpenAIWithRetry_calls [of e ?q 5 w1] call by simp
  then have a: "map system (calls w2) =
        map system (calls w) @ map (\<lambda>j. BatchPrompt (Suc j) ?nb now) [0..<?nb] @ [FinalPrompt ?nb now]"
    using cls nb by simp
  show ?thesis
    unfolding red by (rule conjI [OF a ceil])
qed

lemma parse_emptyReport: "JSON_parse emptyReport = Inr parsedEmptyReport"
  unfolding emptyReport_def parsedEmptyReport_def by code_simp

lemma parse_sixReport: "JSON_parse sixReport = Inr parsedSixReport"
  unfolding sixReport_def parsedSixReport_def category_def by code_simp

lemma parse_garbage:
  "JSON_parse garbage = Inl syntaxError"
  "JSON_parse (basicCleanup garbage) = Inl syntaxError"
  "JSON_parse (aggressiveFix (basicCleanup garbage)) = Inl syntaxError"
  unfolding garbage_def by code_simp+

theorem valid_json_witness:
  "JSON_parse sixReport = Inr parsedSixReport \<and>
   cleanAndFixJSON JSON_parse clock0 sixReport = parsedSixReport"
  using parse_sixReport
    valid_json_returned_unchanged [of JSON_parse sixReport parsedSixReport clock0]
  by simp

theorem degraded_record_witness:
  "JSON_parse garbage = Inl syntaxError \<and>
   JSON_parse (basicCleanup garbage) = Inl syntaxError \<and>
   JSON_parse (aggressiveFix (basicCleanup garbage)) = Inl syntaxError \<and>
   cleanAndFixJSON JSON_parse clock0 garbage =
     JObject [(js ''error'', JString (js ''JSON parsing failed'')),
              (js ''errorMessage'', JString syntaxError),
              (js ''timestamp'', JString clock0),
              (js ''summary'',
               JString (js ''Error in analysis output format. Please check server logs.''))]"
  using parse_garbage
    degraded_record_when_all_repairs_fail
      [of JSON_parse garbage syntaxError syntaxError syntaxError clock0]
  by simp

text \<open>
  Claim C7 as stated fails: a well-formed answer of the remote service without any
  category is returned as it is, and it is not the degraded record.
\<close>

theorem report_without_categories:
  "cleanAndFixJSON JSON_parse clock0 emptyReport = parsedEmptyReport \<and>
   obj_get [(js ''summary'', JString (js ''nothing found'')),
            (js ''strideCategories'', JArray [])] (js ''error'') = None \<and>
   \<not> hasSixStrideCategories parsedEmptyReport"
proof -
  have "cleanAndFixJSON JSON_parse clock0 emptyReport = parsedEmptyReport"
    by (simp add: cleanAndFixJSON_def parse_emptyReport)
  moreover have "obj_get [(js ''summary'', JString (js ''nothing found'')),
            (js ''strideCategories'', JArray [])] (js ''error'') = None"
    by code_simp
  moreover have "\<not> hasSixStrideCategories parsedEmptyReport"
    unfolding parsedEmptyReport_def by code_simp
  ultimately show ?thesis by blast
qed

lemma six_parsedSixReport: "hasSixStrideCategories parsedSixReport"
  unfolding parsedSixReport_def category_def by code_simp

lemma addTimestamp_parsedSixReport:
  "addTimestamp clock0 parsedSixReport =
     Inr (JObject [(js ''summary'', JString (js ''ok'')),
              (js ''strideCategories'',
               JArray [category ''Spoofing Threats'', category ''Tampering Threats'',
                       category ''Repudiation Threats'',
                       category ''Information Disclosure Threats'',
                       category ''Denial of Service Threats'',
                       category ''Elevation of Privilege Threats'']),
              (js ''timestamp'', JString clock0)])"
  unfolding parsedSixReport_def category_def clock0_def by code_simp

theorem report_is_what_the_text_parses_to_witness:
  "JSON_parse sixReport = Inr (cleanAndFixJSON JSON_parse clock0 sixReport) \<and>
   addTimestamp clock0 (cleanAndFixJSON JSON_parse clock0 sixReport) =
     Inr (JObject [(js ''summary'', JString (js ''ok'')),
              (js ''strideCategories'',
               JArray [category ''Spoofing Threats'', category ''Tampering Threats'',
                       category ''Repudiation Threats'',
                       category ''Information Disclosure Threats'',
                       category ''Denial of Service Threats'',
                       category ''Elevation of Privilege Threats'']),
              (js ''timestamp'', JString clock0)]) \<and>
   hasSixStrideCategories
     (JObject [(js ''summary'', JString (js ''ok'')),
              (js ''strideCategories'',
               JArray [category ''Spoofing Threats'', category ''Tampering Threats'',
                       category ''Repudiation Threats'',
                       category ''Information Disclosure Threats'',
                       category ''Denial of Service Threats'',
                       category ''Elevation of Privilege Threats'']),
              (js ''timestamp'', JString clock0)])"
proof -
  have c: "cleanAndFixJSON JSON_parse clock0 sixReport = parsedSixReport"
    by (simp add: cleanAndFixJSON_def parse_sixReport)
  from report_is_what_the_text_parses_to [of JSON_parse clock0 sixReport]
  have "\<forall>v'. addTimestamp clock0 (cleanAndFixJSON JSON_parse clock0 sixReport) = Inr v' \<longrightarrow>
      hasSixStrideCategories v' = hasSixStrideCategories (cleanAndFixJSON JSON_parse clock0 sixReport)"
    by blast
  with c addTimestamp_parsedSixReport six_parsedSixReport parse_sixReport
  show ?thesis by simp
qed

text \<open>
  Claim C2 as stated fails for two to ten reports: there is one batch, and the final
  consolidation call is issued all the same.
\<close>

theorem one_batch_still_consolidated:
  "length (batchLoop 0 [emptyReport, emptyReport]) = 1 \<and>
   map system (calls (snd (reduceReports agreeableEnv JSON_parse JSON_stringify clock0
                              [emptyReport, emptyReport] 2 pw0))) =
     [BatchPrompt 1 1 clock0, FinalPrompt 1 clock0]"
proof -
  have ok: "answers agreeableEnv"
    by (rule answers_if_service_succeeds) (simp add: agreeableEnv_def)
  have n: "length (batchLoop 0 [emptyReport, emptyReport]) = 1"
    by (simp add: length_batchLoop)
  from processBatches_all_answered [OF ok refl, of 0 "batchLoop 0 [emptyReport, emptyReport]"
      JSON_parse JSON_stringify clock0 "[]" pw0]
  obtain brs w1 where
    res: "processBatches agreeableEnv JSON_parse JSON_stringify clock0
            (batchLoop 0 [emptyReport, emptyReport]) 0 [] pw0 = (Inr brs, w1)" and
    cls: "map system (calls w1) = map system (calls pw0) @ [BatchPrompt 1 1 clock0]"
    using n by auto
  let ?q = "\<lparr>model = js ''gpt-4o'', system = FinalPrompt 1 clock0,
             user = join batchSeparator brs\<rparr>"
  have "service agreeableEnv (attempts w1) ?q = Inr emptyReport"
    by (simp add: agreeableEnv_def)
  then have "callOpenAIWithRetry agreeableEnv ?q 5 w1 =
             (Inr emptyReport, w1\<lparr>attempts := Suc (attempts w1), calls := calls w1 @ [?q]\<rparr>)"
    by (rule callOpenAIWithRetry_success)
  with res cls n show ?thesis
    by (simp add: reduceReports_def Let_def pw0_def)
qed

theorem batch_calls_witness:
  "answers agreeableEnv \<and>
   1 < length (replicate 21 emptyReport) \<and>
   map system (calls (snd (reduceReports agreeableEnv JSON_parse JSON_stringify clock0
                              (replicate 21 emptyReport) 21 pw0))) =
     [BatchPrompt 1 3 clock0, BatchPrompt 2 3 clock0, BatchPrompt 3 3 clock0,
      FinalPrompt 3 clock0]"
proof -
  have ok: "answers agreeableEnv"
    by (rule answers_if_service_succeeds) (simp add: agreeableEnv_def)
  have len: "1 < length (replicate 21 emptyReport)" by simp
  have upt: "[0..<3] = [0, 1, 2]" by (simp add: upt_rec)
  from batch_calls_then_one_final_call [OF ok len, of JSON_parse JSON_stringify clock0 21 pw0]
  show ?thesis using ok by (simp add: pw0_def upt)
qed

subsection \<open>The Segmenter\<close>

lemma trim_Nil: "trim [] = []"
  by (simp add: trim_def)

lemma keep_iff: "keep c \<longleftrightarrow> 10 < length (trim (content c))"
  by (auto simp: keep_def trim_Nil)

lemma upper_component: "toUpperCase (js ''component'') = js ''COMPONENT''"
  by (simp add: toUpperCase_def js_def upperChar_def isLower_def)

lemma upper_metadata: "toUpperCase (js ''metadata'') = js ''METADATA''"
  by (simp add: toUpperCase_def js_def upperChar_def isLower_def)

lemma upper_connection_group: "toUpperCase (js ''connection_group'') = js ''CONNECTION_GROUP''"
  by (simp add: toUpperCase_def js_def upperChar_def isLower_def)

lemma render_component:
  "type c = js ''component'' \<Longrightarrow> render c = js ''[COMPONENT]\<newline>'' @ content c"
  by (simp add: render_def upper_component) (simp add: js_def)

lemma render_metadata:
  "type c = js ''metadata'' \<Longrightarrow> render c = js ''[METADATA]\<newline>'' @ content c"
  by (simp add: render_def upper_metadata) (simp add: js_def)

lemma render_connection_group:
  "type c = js ''connection_group'' \<Longrightarrow> render c = js ''[CONNECTION_GROUP]\<newline>'' @ content c"
  by (simp add: render_def upper_connection_group) (simp add: js_def)

lemma classified_initial: "classified P initial"
  by (simp add: classified_def initial_def)

lemma classified_classify:
  assumes "classified P st" and "p \<in> P"
  shows "classified P (classify st p)"
proof -
  have c: "type (component p) = js ''component''" "content (component p) \<in> trim ` P"
    using assms(2) by (simp_all add: component_def)
  have m: "type (metadata p) = js ''metadata''" "content (metadata p) \<in> trim ` P"
    using assms(2) by (simp_all add: metadata_def)
  have n: "content (connection p) \<in> trim ` P"
    using assms(2) by (simp add: connection_def)
  show ?thesis
    using assms(1) c m n unfolding classify_def classified_def Let_def
    by (auto split: prod.splits bool.splits)
qed

lemma classified_foldl:
  "classified P st \<Longrightarrow> set ps \<subseteq> P \<Longrightarrow> classified P (foldl classify st ps)"
  by (induction ps arbitrary: st) (simp_all add: classified_classify)

lemma classified_classifyAll: "classified (set (paragraphs text)) (classifyAll text)"
  unfolding classifyAll_def by (rule classified_foldl [OF classified_initial]) simp





lemma allChunks_shape:
  assumes "allChunks text = Inr chunks"
  shows "\<exists>groups. groupAll [] (connectionChunks (classifyAll text)) = Inr groups \<and>
           chunks = componentChunks (classifyAll text) @ metadataChunks (classifyAll text) @
                    map (\<lambda>(key, grp). connectionGroup grp) groups"
  using assms unfolding allChunks_def Let_def by (auto split: sum.splits)



lemma chunk_types:
  assumes "allChunks text = Inr chunks" and "c \<in> set chunks"
  shows "type c = js ''component'' \<or> type c = js ''metadata'' \<or> type c = js ''connection_group''"
proof -
  from allChunks_shape [OF assms(1)] obtain groups where
    "groupAll [] (connectionChunks (classifyAll text)) = Inr groups" and
    shape: "chunks = componentChunks (classifyAll text) @ metadataChunks (classifyAll text) @
                     map (\<lambda>(key, grp). connectionGroup grp) groups"
    by blast
  have "classified (set (paragraphs text)) (classifyAll text)" by (rule classified_classifyAll)
  with assms(2) shape show ?thesis
    by (auto simp: classified_def connectionGroup_def)
qed

lemma render_same_content:
  assumes "type c = js ''component'' \<or> type c = js ''metadata'' \<or> type c = js ''connection_group''"
    and "type c' = js ''component'' \<or> type c' = js ''metadata'' \<or> type c' = js ''connection_group''"
    and "render c = render c'"
  shows "content c = content c'"
  using assms
  by (auto simp: render_component render_metadata render_connection_group) (simp_all add: js_def)

text \<open>
  Claim C6, as amended.  A chunk of the structural pass (a component or metadata
  paragraph, or a connection group) is discarded exactly when the trimmed length of its
  content is at most 10; it is kept from 11 code units on.
\<close>

theorem chunk_kept_iff_longer_than_ten:
  assumes "allChunks text = Inr chunks" and "c \<in> set chunks"
  shows "render c \<in> set (componentBasedChunking splitter text) \<longleftrightarrow> 10 < length (trim (content c))"
proof -
  have res: "componentBasedChunking splitter text = map render (filter keep chunks)"
    using assms(1) by (simp add: componentBasedChunking_def structuralPass_def)
  show ?thesis
  proof
    assume "render c \<in> set (componentBasedChunking splitter text)"
    then obtain c' where c': "c' \<in> set chunks" "keep c'" "render c = render c'"
      unfolding res by auto
    from chunk_types [OF assms(1) assms(2)] chunk_types [OF assms(1) c'(1)] c'(3)
    have "content c = content c'" by (rule render_same_content)
    with c'(2) show "10 < length (trim (content c))" by (simp add: keep_iff)
  next
    assume "10 < length (trim (content c))"
    with assms(2) show "render c \<in> set (componentBasedChunking splitter text)"
      unfolding res by (auto simp: keep_iff)
  qed
qed

lemma concat_basicChunks: "concat (basicChunks i s) = drop i s"
proof (induction i s rule: basicChunks.induct)
  case (1 i s)
  show ?case
  proof (cases "i < length s")
    case True
    have "concat (basicChunks i s) =
          slice s i (i + chunkSize) @ concat (basicChunks (i + chunkSize) s)"
      using True by (subst basicChunks.simps) simp
    also have "\<dots> = take chunkSize (drop i s) @ drop chunkSize (drop i s)"
      using "1.IH" [OF True] by (simp add: slice_def add.commute)
    also have "\<dots> = drop i s" by (rule append_take_drop_id)
    finally show ?thesis .
  next
    case False
    then show ?thesis by (subst basicChunks.simps) simp
  qed
qed

text \<open>
  Claim C1, as amended.  The function has a result for every text.  It falls back to
  sliding-window splitting only when the structural pass throws, and then returns what
  the library's splitter returns or, when that throws too, consecutive slices of the
  text that together are the whole text.  When the pass completes, the result is what
  the pass kept, and it is empty exactly when no chunk has a trimmed content of more
  than 10 code units.
\<close>

theorem fallback_only_when_pass_throws:
  "(\<forall>err. structuralPass text = Inl err \<longrightarrow>
      componentBasedChunking splitter text = chunkWithSlidingWindow splitter text \<and>
      (splitter text = None \<longrightarrow> concat (componentBasedChunking splitter text) = text)) \<and>
   (\<forall>chunks. allChunks text = Inr chunks \<longrightarrow>
      componentBasedChunking splitter text = map render (filter keep chunks) \<and>
      (componentBasedChunking splitter text = [] \<longleftrightarrow>
         (\<forall>c \<in> set chunks. length (trim (content c)) \<le> 10)))"
proof (intro conjI allI impI)
  fix err assume e: "structuralPass text = Inl err"
  then show f: "componentBasedChunking splitter text = chunkWithSlidingWindow splitter text"
    by (simp add: componentBasedChunking_def)
  assume "splitter text = None"
  then show "concat (componentBasedChunking splitter text) = text"
    unfolding f by (simp add: chunkWithSlidingWindow_def concat_basicChunks)
next
  fix chunks assume c: "allChunks text = Inr chunks"
  then show r: "componentBasedChunking splitter text = map render (filter keep chunks)"
    by (simp add: componentBasedChunking_def structuralPass_def)
  show "componentBasedChunking splitter text = [] \<longleftrightarrow>
        (\<forall>c \<in> set chunks. length (trim (content c)) \<le> 10)"
    unfolding r by (auto simp: keep_iff filter_empty_conv)
qed


lemma allChunks_tenChars:
  "allChunks tenChars = Inr [\<lparr>type = js ''component'', content = tenChars\<rparr>]"
  unfolding tenChars_def by code_simp

lemma allChunks_elevenChars:
  "allChunks elevenChars = Inr [\<lparr>type = js ''component'', content = elevenChars\<rparr>]"
  unfolding elevenChars_def by code_simp

lemma allChunks_hi:
  "allChunks (js ''hi'') = Inr [\<lparr>type = js ''component'', content = js ''hi''\<rparr>]"
  by code_simp

lemma structuralPass_protoText: "structuralPass protoText = Inl pushTypeError"
  unfolding protoText_def by code_simp

lemma length_trim_tenChars: "length (trim tenChars) = 10"
  unfolding tenChars_def by code_simp

lemma length_trim_elevenChars: "length (trim elevenChars) = 11"
  unfolding elevenChars_def by code_simp

lemma length_trim_hi: "length (trim (js ''hi'')) = 2"
  by code_simp


text \<open>
  Claim C6 as stated fails at the threshold: a paragraph whose trimmed content has
  exactly 10 code units is classified and then discarded.
\<close>

theorem ten_characters_discarded:
  "allChunks tenChars = Inr [\<lparr>type = js ''component'', content = tenChars\<rparr>] \<and>
   length (trim tenChars) = 10 \<and>
   componentBasedChunking wholeText tenChars = []"
  using allChunks_tenChars length_trim_tenChars
  by (simp add: componentBasedChunking_def structuralPass_def keep_def)

theorem chunk_kept_witness:
  "allChunks elevenChars = Inr [\<lparr>type = js ''component'', content = elevenChars\<rparr>] \<and>
   length (trim elevenChars) = 11 \<and>
   render \<lparr>type = js ''component'', content = elevenChars\<rparr>
     \<in> set (componentBasedChunking wholeText elevenChars)"
  using allChunks_elevenChars length_trim_elevenChars
    chunk_kept_iff_longer_than_ten
      [of elevenChars "[\<lparr>type = js ''component'', content = elevenChars\<rparr>]"
          "\<lparr>type = js ''component'', content = elevenChars\<rparr>" wholeText]
  by simp

text \<open>
  Claim C1 as stated fails on a short text: the structural pass completes with nothing
  to keep, no fallback follows, and the result is the empty list, where sliding-window
  splitting would have given the text back.
\<close>

theorem short_text_gives_no_segment:
  "componentBasedChunking wholeText (js ''hi'') = [] \<and>
   chunkWithSlidingWindow wholeText (js ''hi'') = [js ''hi'']"
  using allChunks_hi length_trim_hi
  by (simp add: componentBasedChunking_def structuralPass_def keep_def
      chunkWithSlidingWindow_def wholeText_def)

theorem fallback_witness:
  "structuralPass protoText = Inl pushTypeError \<and>
   componentBasedChunking wholeText protoText = [protoText] \<and>
   brokenSplitter protoText = None \<and>
   concat (componentBasedChunking brokenSplitter protoText) = protoText \<and>
   allChunks (js ''hi'') = Inr [\<lparr>type = js ''component'', content = js ''hi''\<rparr>] \<and>
   componentBasedChunking wholeText (js ''hi'') = []"
proof -
  from fallback_only_when_pass_throws [of protoText wholeText] structuralPass_protoText
  have a: "componentBasedChunking wholeText protoText = [protoText]"
    by (simp add: chunkWithSlidingWindow_def wholeText_def)
  from fallback_only_when_pass_throws [of protoText brokenSplitter] structuralPass_protoText
  have b: "concat (componentBasedChunking brokenSplitter protoText) = protoText"
    by (auto simp: brokenSplitter_def)
  from fallback_only_when_pass_throws [of "js ''hi''" wholeText] allChunks_hi length_trim_hi
  have c: "componentBasedChunking wholeText (js ''hi'') = []"
    by (simp add: keep_def)
  from a b c structuralPass_protoText allChunks_hi show ?thesis
    by (simp add: brokenSplitter_def)
qed

text \<open>
  A connection paragraph can also be lost whatever its length: here the first paragraph
  (21 code units) is grouped under the key \<^verbatim>\<open>conn_1\<close>, which the second, ungroupable
  connection then takes over, and the remaining group is too short to be kept.
\<close>

lemma overwritten_group_is_lost:
  "allChunks collidingText = Inr [\<lparr>type = js ''connection_group'', content = js ''a->b''\<rparr>] \<and>
   structuralPass collidingText = Inr []"
  unfolding collidingText_def by code_simp

end
